theory Spec2Isabelle
  imports Main "HOL-Library.Multiset"
begin

section \<open>The relational store\<close>

text \<open>
  Modelled from the spec: the table declarations of \<^verbatim>\<open>UserPlans\<close>, \<^verbatim>\<open>PlanSteps\<close> and
  \<^verbatim>\<open>GrassSpecies\<close> (the schema) are not among the sources; the columns are those of the
  spec's data model, which marks \<^verbatim>\<open>templateId\<close> and \<^verbatim>\<open>establishmentType\<close> optional.
  \<^verbatim>\<open>completedAt\<close> is null until set, and \<^verbatim>\<open>stepOrder\<close> is null for a row inserted without
  it (the insert of the plan update names no \<^verbatim>\<open>stepOrder\<close>). Identities, timestamps and
  order values are integers. Column names carry the alias the queries give their table
  (\<^verbatim>\<open>up\<close>, \<^verbatim>\<open>ps\<close>, \<^verbatim>\<open>gs\<close>).
\<close>

record UserPlanRow =
  up_userPlanId :: int
  up_userId :: int
  up_grassSpeciesId :: int
  up_planType :: string
  up_establishmentType :: "string option"
  up_isCompleted :: bool
  up_isArchived :: bool
  up_createdAt :: int
  up_completedAt :: "int option"

record PlanStepRow =
  ps_planStepId :: int
  ps_userPlanId :: int
  ps_templateId :: "int option"
  ps_stepDescription :: string
  ps_dueDate :: int
  ps_completed :: bool
  ps_completedAt :: "int option"
  ps_stepOrder :: "int option"

record GrassSpeciesRow =
  gs_grassSpeciesId :: int
  gs_name :: string

text \<open>
  The store: the three tables in their physical row order, and the last value issued by
  the sequence that assigns \<^verbatim>\<open>planStepId\<close>.
\<close>

record db =
  UserPlans :: "UserPlanRow list"
  PlanSteps :: "PlanStepRow list"
  GrassSpecies :: "GrassSpeciesRow list"
  PlanSteps_seq :: int

text \<open>
  What a handler passes to \<^verbatim>\<open>next(err)\<close>: a \<^verbatim>\<open>ClientError\<close> with its status and
  message, an error raised by the store (a null written to a column that holds none), or a
  JavaScript \<^verbatim>\<open>TypeError\<close>.
\<close>

datatype error = ClientError int string | StoreError | TypeError

text \<open>
  A transaction: \<^verbatim>\<open>ROLLBACK\<close> restores the tables as they were at \<^verbatim>\<open>BEGIN\<close>; values
  drawn from a sequence are not given back. \<^verbatim>\<open>COMMIT\<close> keeps the working state.
\<close>

definition ROLLBACK :: "db \<Rightarrow> db \<Rightarrow> db" where
  "ROLLBACK d0 d1 = d0\<lparr>PlanSteps_seq := PlanSteps_seq d1\<rparr>"

definition COMMIT :: "db \<Rightarrow> db" where
  "COMMIT d1 = d1"

text \<open>JavaScript truthiness of a nullable number: \<^verbatim>\<open>null\<close> and \<^verbatim>\<open>0\<close> are falsy.\<close>

fun truthy :: "int option \<Rightarrow> bool" where
  "truthy None = False"
| "truthy (Some n) = (n \<noteq> 0)"

text \<open>\<^verbatim>\<open>b || false\<close> on a boolean that may be absent.\<close>

fun or_false :: "bool option \<Rightarrow> bool" where
  "or_false None = False"
| "or_false (Some b) = b"

section \<open>Queries shared by the handlers\<close>

text \<open>
  \<^verbatim>\<open>SELECT * FROM "UserPlans" WHERE "userPlanId" = $1 AND "userId" = $2\<close>
\<close>

definition checkPlanSql :: "db \<Rightarrow> int \<Rightarrow> int \<Rightarrow> UserPlanRow list" where
  "checkPlanSql d planId userId =
     filter (\<lambda>up. up_userPlanId up = planId \<and> up_userId up = userId) (UserPlans d)"

section \<open>GET /api/plans/:planId\<close>

record PlanWithSteps =
  gr_plan :: UserPlanRow
  gr_grassSpeciesName :: string
  gr_steps :: "PlanStepRow list"

text \<open>
  \<^verbatim>\<open>SELECT up.*, gs.name as "grassSpeciesName" FROM "UserPlans" up
  JOIN "GrassSpecies" gs ON up."grassSpeciesId" = gs."grassSpeciesId"
  WHERE up."userPlanId" = $1 AND up."userId" = $2\<close>
\<close>

definition planSql :: "db \<Rightarrow> int \<Rightarrow> int \<Rightarrow> (UserPlanRow \<times> string) list" where
  "planSql d planId userId =
     concat (map (\<lambda>up. map (\<lambda>gs. (up, gs_name gs))
                     (filter (\<lambda>gs. up_grassSpeciesId up = gs_grassSpeciesId gs) (GrassSpecies d)))
       (filter (\<lambda>up. up_userPlanId up = planId \<and> up_userId up = userId) (UserPlans d)))"

text \<open>
  \<^verbatim>\<open>SELECT * FROM "PlanSteps" WHERE "userPlanId" = $1 ORDER BY "dueDate" ASC\<close>.
  The store leaves the order among rows of equal due date open, and it may change when a
  row is updated. The definition keeps such rows in table order, which is one of the
  answers the store may give; what is stated of the order of an answer below is that it is
  sorted and which rows it holds, and that is so for every such answer.
\<close>

definition stepsSql :: "db \<Rightarrow> int \<Rightarrow> PlanStepRow list" where
  "stepsSql d planId =
     sort_key ps_dueDate (filter (\<lambda>ps. ps_userPlanId ps = planId) (PlanSteps d))"

text \<open>
  The handler. The filter \<^verbatim>\<open>step.planStepId !== null\<close> is on a row read from the table,
  whose \<^verbatim>\<open>planStepId\<close> is never null.
\<close>

definition get :: "db \<Rightarrow> int \<Rightarrow> int \<Rightarrow> (error + PlanWithSteps) \<times> db" where
  "get d planId userId =
     (case planSql d planId userId of
        [] \<Rightarrow> (Inl (ClientError 404 ''Plan not found''), d)
      | (plan, name) # _ \<Rightarrow>
          (Inr \<lparr>gr_plan = plan, gr_grassSpeciesName = name,
                gr_steps = filter (\<lambda>step. Some (ps_planStepId step) \<noteq> None) (stepsSql d planId)\<rparr>,
           d))"

section \<open>PUT /api/plans/:planId/steps/:stepId\<close>

text \<open>
  \<^verbatim>\<open>UPDATE "PlanSteps" SET "completed" = $1, "completedAt" = $2
  WHERE "planStepId" = $3 AND "userPlanId" = $4 RETURNING *\<close>.
  The store checks a new row value only for a row the statement changes: with no matching
  row nothing is written and nothing fails.
\<close>

definition completeStep_updateStepSql ::
  "db \<Rightarrow> bool option \<Rightarrow> int option \<Rightarrow> int \<Rightarrow> int \<Rightarrow> (error + PlanStepRow list) \<times> db" where
  "completeStep_updateStepSql d completed completedAt stepId planId =
     (let hit = (\<lambda>ps. ps_planStepId ps = stepId \<and> ps_userPlanId ps = planId)
      in if filter hit (PlanSteps d) = [] then (Inr [], d)
         else case completed of
                None \<Rightarrow> (Inl StoreError, d)
              | Some c \<Rightarrow>
                  (let upd = (\<lambda>ps. ps\<lparr>ps_completed := c, ps_completedAt := completedAt\<rparr>)
                   in (Inr (map upd (filter hit (PlanSteps d))),
                       d\<lparr>PlanSteps := map (\<lambda>ps. if hit ps then upd ps else ps) (PlanSteps d)\<rparr>)))"

definition completeStep ::
  "db \<Rightarrow> int \<Rightarrow> int \<Rightarrow> int \<Rightarrow> bool option \<Rightarrow> int option \<Rightarrow> (error + PlanStepRow) \<times> db" where
  "completeStep d planId stepId userId completed completedAt =
     (if checkPlanSql d planId userId = [] then (Inl (ClientError 404 ''Plan not found''), d)
      else case completeStep_updateStepSql d completed completedAt stepId planId of
             (Inl err, d') \<Rightarrow> (Inl err, d')
           | (Inr [], d') \<Rightarrow> (Inl (ClientError 404 ''Step not found''), d')
           | (Inr (row # _), d') \<Rightarrow> (Inr row, d'))"

section \<open>PUT /api/plans/:planId/complete\<close>

text \<open>
  \<^verbatim>\<open>UPDATE "UserPlans" SET "isCompleted" = true WHERE "userPlanId" = $1 RETURNING *\<close>
\<close>

definition complete_updatePlanSql :: "db \<Rightarrow> int \<Rightarrow> UserPlanRow list \<times> db" where
  "complete_updatePlanSql d planId =
     (let hit = (\<lambda>up. up_userPlanId up = planId);
          upd = (\<lambda>up. up\<lparr>up_isCompleted := True\<rparr>)
      in (map upd (filter hit (UserPlans d)),
          d\<lparr>UserPlans := map (\<lambda>up. if hit up then upd up else up) (UserPlans d)\<rparr>))"

text \<open>
  \<^verbatim>\<open>UPDATE "PlanSteps" SET "completed" = true, "completedAt" = NOW()
  WHERE "userPlanId" = $1 AND "completed" = false\<close>; \<open>now\<close> is the store's clock.
\<close>

definition updateStepsSql :: "db \<Rightarrow> int \<Rightarrow> int \<Rightarrow> db" where
  "updateStepsSql d now planId =
     d\<lparr>PlanSteps :=
         map (\<lambda>ps. if ps_userPlanId ps = planId \<and> ps_completed ps = False
                    then ps\<lparr>ps_completed := True, ps_completedAt := Some now\<rparr> else ps)
           (PlanSteps d)\<rparr>"

text \<open>
  The statements between \<^verbatim>\<open>BEGIN\<close> and \<^verbatim>\<open>COMMIT\<close>; the response is
  \<^verbatim>\<open>result.rows[0]\<close>, \<open>None\<close> standing for \<^verbatim>\<open>undefined\<close>.
\<close>

definition complete_txn :: "db \<Rightarrow> int \<Rightarrow> int \<Rightarrow> int \<Rightarrow> (error + UserPlanRow option) \<times> db" where
  "complete_txn d now planId userId =
     (if checkPlanSql d planId userId = [] then (Inl (ClientError 404 ''Plan not found''), d)
      else (let (rows, d1) = complete_updatePlanSql d planId;
                d2 = updateStepsSql d1 now planId
            in (Inr (case rows of [] \<Rightarrow> None | row # _ \<Rightarrow> Some row), d2)))"

definition complete :: "db \<Rightarrow> int \<Rightarrow> int \<Rightarrow> int \<Rightarrow> (error + UserPlanRow option) \<times> db" where
  "complete d now planId userId =
     (case complete_txn d now planId userId of
        (Inl err, d1) \<Rightarrow> (Inl err, ROLLBACK d d1)
      | (Inr res, d1) \<Rightarrow> (Inr res, COMMIT d1))"

section \<open>PUT /api/plans/:planId\<close>

text \<open>
  The request body, a \<^verbatim>\<open>UserPlan\<close> as the client sends it: any field may be missing.
\<close>

record StepPayload =
  sp_planStepId :: "int option"
  sp_stepDescription :: "string option"
  sp_dueDate :: "int option"
  sp_completed :: "bool option"

record PlanPayload =
  pp_grassSpeciesId :: "int option"
  pp_planType :: "string option"
  pp_isCompleted :: "bool option"
  pp_isArchived :: "bool option"
  pp_establishmentType :: "string option"
  pp_steps :: "StepPayload list option"

text \<open>
  \<^verbatim>\<open>UPDATE "UserPlans" SET "grassSpeciesId" = $1, "planType" = $2, "isCompleted" = $3,
  "isArchived" = $4, "establishmentType" = $5 WHERE "userPlanId" = $6 AND "userId" = $7
  RETURNING *\<close>, with \<^verbatim>\<open>isCompleted || false\<close> and \<^verbatim>\<open>isArchived || false\<close>.
\<close>

definition update_updatePlanSql ::
  "db \<Rightarrow> PlanPayload \<Rightarrow> int \<Rightarrow> int \<Rightarrow> (error + UserPlanRow list) \<times> db" where
  "update_updatePlanSql d updatedPlan planId userId =
     (let hit = (\<lambda>up. up_userPlanId up = planId \<and> up_userId up = userId)
      in if filter hit (UserPlans d) = [] then (Inr [], d)
         else case (pp_grassSpeciesId updatedPlan, pp_planType updatedPlan) of
                (Some g, Some t) \<Rightarrow>
                  (let upd = (\<lambda>up. up\<lparr>up_grassSpeciesId := g, up_planType := t,
                                        up_isCompleted := or_false (pp_isCompleted updatedPlan),
                                        up_isArchived := or_false (pp_isArchived updatedPlan),
                                        up_establishmentType := pp_establishmentType updatedPlan\<rparr>)
                   in (Inr (map upd (filter hit (UserPlans d))),
                       d\<lparr>UserPlans := map (\<lambda>up. if hit up then upd up else up) (UserPlans d)\<rparr>))
              | _ \<Rightarrow> (Inl StoreError, d))"

text \<open>
  \<^verbatim>\<open>UPDATE "PlanSteps" SET "stepDescription" = $1, "dueDate" = $2, "completed" = $3
  WHERE "planStepId" = $4 AND "userPlanId" = $5\<close>
\<close>

definition update_updateStepSql :: "db \<Rightarrow> StepPayload \<Rightarrow> int \<Rightarrow> (error + unit) \<times> db" where
  "update_updateStepSql d step planId =
     (let hit = (\<lambda>ps. Some (ps_planStepId ps) = sp_planStepId step \<and> ps_userPlanId ps = planId)
      in if filter hit (PlanSteps d) = [] then (Inr (), d)
         else case (sp_stepDescription step, sp_dueDate step, sp_completed step) of
                (Some descr, Some due, Some c) \<Rightarrow>
                  (Inr (),
                   d\<lparr>PlanSteps :=
                       map (\<lambda>ps. if hit ps
                                  then ps\<lparr>ps_stepDescription := descr, ps_dueDate := due,
                                          ps_completed := c\<rparr>
                                  else ps) (PlanSteps d)\<rparr>)
              | _ \<Rightarrow> (Inl StoreError, d))"

text \<open>
  \<^verbatim>\<open>INSERT INTO "PlanSteps" ("userPlanId", "templateId", "stepDescription", "dueDate",
  "completed") VALUES ($1, null, $3, $4, $5)\<close>. The identity is drawn from the sequence
  before the row is checked.
\<close>

definition update_insertStepSql :: "db \<Rightarrow> StepPayload \<Rightarrow> int \<Rightarrow> (error + unit) \<times> db" where
  "update_insertStepSql d step planId =
     (let newId = PlanSteps_seq d + 1;
          d1 = d\<lparr>PlanSteps_seq := newId\<rparr>
      in case (sp_stepDescription step, sp_dueDate step, sp_completed step) of
           (Some descr, Some due, Some c) \<Rightarrow>
             (Inr (),
              d1\<lparr>PlanSteps := PlanSteps d1 @
                   [\<lparr>ps_planStepId = newId, ps_userPlanId = planId, ps_templateId = None,
                     ps_stepDescription = descr, ps_dueDate = due, ps_completed = c,
                     ps_completedAt = None, ps_stepOrder = None\<rparr>]\<rparr>)
         | _ \<Rightarrow> (Inl StoreError, d1))"

text \<open>The loop \<^verbatim>\<open>for (const step of updatedPlan.steps)\<close>; a failing statement ends it.\<close>

fun update_steps :: "int \<Rightarrow> StepPayload list \<Rightarrow> db \<Rightarrow> (error + unit) \<times> db" where
  "update_steps planId [] d = (Inr (), d)"
| "update_steps planId (step # rest) d =
     (case (if truthy (sp_planStepId step) then update_updateStepSql d step planId
            else update_insertStepSql d step planId) of
        (Inl err, d') \<Rightarrow> (Inl err, d')
      | (Inr _, d') \<Rightarrow> update_steps planId rest d')"

text \<open>
  The statements between \<^verbatim>\<open>BEGIN\<close> and \<^verbatim>\<open>COMMIT\<close>. Iterating over a missing
  \<^verbatim>\<open>steps\<close> field throws a \<^verbatim>\<open>TypeError\<close>.
\<close>

definition update_txn :: "db \<Rightarrow> int \<Rightarrow> int \<Rightarrow> PlanPayload \<Rightarrow> (error + unit) \<times> db" where
  "update_txn d planId userId updatedPlan =
     (case update_updatePlanSql d updatedPlan planId userId of
        (Inl err, d1) \<Rightarrow> (Inl err, d1)
      | (Inr [], d1) \<Rightarrow> (Inl (ClientError 404 ''Plan not found''), d1)
      | (Inr (_ # _), d1) \<Rightarrow>
          (case pp_steps updatedPlan of
             None \<Rightarrow> (Inl TypeError, d1)
           | Some steps \<Rightarrow> update_steps planId steps d1))"

text \<open>
  A row of the join of a plan with its species and, by \<^verbatim>\<open>LEFT JOIN\<close>, its steps: a plan
  without steps gives one row whose step part is null.
\<close>

definition leftJoinSteps :: "db \<Rightarrow> UserPlanRow \<Rightarrow> PlanStepRow option list" where
  "leftJoinSteps d up =
     (case filter (\<lambda>ps. up_userPlanId up = ps_userPlanId ps) (PlanSteps d) of
        [] \<Rightarrow> [None]
      | m # ms \<Rightarrow> map Some (m # ms))"

definition joinRows ::
  "db \<Rightarrow> (UserPlanRow \<Rightarrow> bool) \<Rightarrow> (UserPlanRow \<times> string \<times> PlanStepRow option) list" where
  "joinRows d wh =
     concat (map (\<lambda>up.
         concat (map (\<lambda>gs. map (\<lambda>pso. (up, gs_name gs, pso)) (leftJoinSteps d up))
           (filter (\<lambda>gs. up_grassSpeciesId up = gs_grassSpeciesId gs) (GrassSpecies d))))
       (filter wh (UserPlans d)))"

text \<open>
  \<^verbatim>\<open>ORDER BY ps."dueDate" ASC\<close>: ascending, rows with a null due date last. Rows of equal
  due date are kept in the order of the join, one of the orders the store may answer with.
\<close>

definition stepDue :: "(UserPlanRow \<times> string \<times> PlanStepRow option) \<Rightarrow> int" where
  "stepDue r = (case snd (snd r) of None \<Rightarrow> 0 | Some ps \<Rightarrow> ps_dueDate ps)"

definition orderByDueDate ::
  "(UserPlanRow \<times> string \<times> PlanStepRow option) list \<Rightarrow>
   (UserPlanRow \<times> string \<times> PlanStepRow option) list" where
  "orderByDueDate rows =
     sort_key stepDue (filter (\<lambda>r. snd (snd r) \<noteq> None) rows) @
     filter (\<lambda>r. snd (snd r) = None) rows"

text \<open>
  The row object the driver builds for \<^verbatim>\<open>SELECT up.*, gs.name as "grassSpeciesName", ps.*\<close>:
  one property per column name, a later column of the same name replacing an earlier one.
  \<^verbatim>\<open>userPlanId\<close> and \<^verbatim>\<open>completedAt\<close> are columns of both tables, so the row holds the
  step's values of them, null where no step was joined.
\<close>

record JoinedRow =
  jr_userPlanId :: "int option"
  jr_userId :: int
  jr_grassSpeciesId :: int
  jr_planType :: string
  jr_establishmentType :: "string option"
  jr_isCompleted :: bool
  jr_isArchived :: bool
  jr_createdAt :: int
  jr_completedAt :: "int option"
  jr_grassSpeciesName :: string
  jr_planStepId :: "int option"
  jr_templateId :: "int option"
  jr_stepDescription :: "string option"
  jr_dueDate :: "int option"
  jr_completed :: "bool option"
  jr_stepOrder :: "int option"

definition pgRow :: "(UserPlanRow \<times> string \<times> PlanStepRow option) \<Rightarrow> JoinedRow" where
  "pgRow r =
     (case r of (up, name, pso) \<Rightarrow>
        \<lparr>jr_userPlanId = map_option ps_userPlanId pso,
         jr_userId = up_userId up,
         jr_grassSpeciesId = up_grassSpeciesId up,
         jr_planType = up_planType up,
         jr_establishmentType = up_establishmentType up,
         jr_isCompleted = up_isCompleted up,
         jr_isArchived = up_isArchived up,
         jr_createdAt = up_createdAt up,
         jr_completedAt = Option.bind pso ps_completedAt,
         jr_grassSpeciesName = name,
         jr_planStepId = map_option ps_planStepId pso,
         jr_templateId = Option.bind pso ps_templateId,
         jr_stepDescription = map_option ps_stepDescription pso,
         jr_dueDate = map_option ps_dueDate pso,
         jr_completed = map_option ps_completed pso,
         jr_stepOrder = Option.bind pso ps_stepOrder\<rparr>)"

text \<open>
  \<^verbatim>\<open>SELECT up.*, gs.name as "grassSpeciesName", ps.* FROM "UserPlans" up JOIN "GrassSpecies" gs
  ON ... LEFT JOIN "PlanSteps" ps ON ... WHERE up."userPlanId" = $1 ORDER BY ps."dueDate" ASC\<close>
\<close>

definition updatedPlanSql :: "db \<Rightarrow> int \<Rightarrow> JoinedRow list" where
  "updatedPlanSql d planId =
     map pgRow (orderByDueDate (joinRows d (\<lambda>up. up_userPlanId up = planId)))"

record StepView =
  sv_planStepId :: "int option"
  sv_stepDescription :: "string option"
  sv_dueDate :: "int option"
  sv_completed :: "bool option"

text \<open>
  \<^verbatim>\<open>{ ...rows[0], steps: rows.map(...) }\<close>; spreading \<^verbatim>\<open>undefined\<close> adds no property.
\<close>

record FinalPlan =
  fp_row :: "JoinedRow option"
  fp_steps :: "StepView list"

definition stepView :: "JoinedRow \<Rightarrow> StepView" where
  "stepView row =
     \<lparr>sv_planStepId = jr_planStepId row, sv_stepDescription = jr_stepDescription row,
      sv_dueDate = jr_dueDate row, sv_completed = jr_completed row\<rparr>"

definition finalPlan :: "JoinedRow list \<Rightarrow> FinalPlan" where
  "finalPlan rows =
     \<lparr>fp_row = (case rows of [] \<Rightarrow> None | row # _ \<Rightarrow> Some row),
      fp_steps = map stepView rows\<rparr>"

definition update :: "db \<Rightarrow> int \<Rightarrow> int \<Rightarrow> PlanPayload \<Rightarrow> (error + FinalPlan) \<times> db" where
  "update d planId userId updatedPlan =
     (case update_txn d planId userId updatedPlan of
        (Inl err, d1) \<Rightarrow> (Inl err, ROLLBACK d d1)
      | (Inr _, d1) \<Rightarrow>
          (let d2 = COMMIT d1
           in (Inr (finalPlan (updatedPlanSql d2 planId)), d2)))"

section \<open>GET /api/users/:userId/plans\<close>

record ListedStep =
  ls_planStepId :: "int option"
  ls_userPlanId :: "int option"
  ls_templateId :: "int option"
  ls_stepDescription :: "string option"
  ls_dueDate :: "int option"
  ls_completed :: "bool option"
  ls_completedAt :: "int option"
  ls_createdAt :: int

record ListedPlan =
  lp_userPlanId :: "int option"
  lp_userId :: int
  lp_grassSpeciesId :: int
  lp_grassSpeciesName :: string
  lp_establishmentType :: "string option"
  lp_planType :: string
  lp_isCompleted :: bool
  lp_isArchived :: bool
  lp_createdAt :: int
  lp_completedAt :: "int option"
  lp_steps :: "ListedStep list"

text \<open>
  \<^verbatim>\<open>... WHERE up."userId" = $1 ORDER BY up."createdAt" DESC, ps."dueDate" ASC\<close>: ordering by
  the second key and then, keeping ties in place, by the first.
\<close>

definition plansSql :: "db \<Rightarrow> int \<Rightarrow> JoinedRow list" where
  "plansSql d userId =
     map pgRow
       (sort_key (\<lambda>r. - up_createdAt (fst r))
          (orderByDueDate (joinRows d (\<lambda>up. up_userId up = userId))))"

definition newListedPlan :: "JoinedRow \<Rightarrow> ListedPlan" where
  "newListedPlan row =
     \<lparr>lp_userPlanId = jr_userPlanId row, lp_userId = jr_userId row,
      lp_grassSpeciesId = jr_grassSpeciesId row, lp_grassSpeciesName = jr_grassSpeciesName row,
      lp_establishmentType = jr_establishmentType row, lp_planType = jr_planType row,
      lp_isCompleted = jr_isCompleted row, lp_isArchived = jr_isArchived row,
      lp_createdAt = jr_createdAt row, lp_completedAt = jr_completedAt row,
      lp_steps = []\<rparr>"

definition listedStep :: "JoinedRow \<Rightarrow> ListedStep" where
  "listedStep row =
     \<lparr>ls_planStepId = jr_planStepId row, ls_userPlanId = jr_userPlanId row,
      ls_templateId = jr_templateId row, ls_stepDescription = jr_stepDescription row,
      ls_dueDate = jr_dueDate row, ls_completed = jr_completed row,
      ls_completedAt = jr_completedAt row, ls_createdAt = jr_createdAt row\<rparr>"

text \<open>
  \<^verbatim>\<open>plan.steps.push(...)\<close> on the object that \<^verbatim>\<open>plans.find\<close> returned (the first plan of
  that \<^verbatim>\<open>userPlanId\<close>) or that was just appended.
\<close>

fun pushStep :: "int option \<Rightarrow> ListedStep \<Rightarrow> ListedPlan list \<Rightarrow> ListedPlan list" where
  "pushStep k st [] = []"
| "pushStep k st (p # ps) =
     (if lp_userPlanId p = k then p\<lparr>lp_steps := lp_steps p @ [st]\<rparr> # ps
      else p # pushStep k st ps)"

text \<open>The body of \<^verbatim>\<open>plansResult.rows.forEach\<close>.\<close>

definition addRow :: "ListedPlan list \<Rightarrow> JoinedRow \<Rightarrow> ListedPlan list" where
  "addRow plans row =
     (let plans1 = (case find (\<lambda>p. lp_userPlanId p = jr_userPlanId row) plans of
                      None \<Rightarrow> plans @ [newListedPlan row]
                    | Some _ \<Rightarrow> plans)
      in if truthy (jr_planStepId row)
         then pushStep (jr_userPlanId row) (listedStep row) plans1
         else plans1)"

definition listForUser :: "db \<Rightarrow> int \<Rightarrow> int \<Rightarrow> (error + ListedPlan list) \<times> db" where
  "listForUser d userId authenticatedUserId =
     (if userId \<noteq> authenticatedUserId
      then (Inl (ClientError 403 ''Unauthorized to access plans for this user''), d)
      else (Inr (foldl addRow [] (plansSql d userId)), d))"

section \<open>DELETE /api/plans/:planId\<close>

text \<open>\<^verbatim>\<open>DELETE FROM "PlanSteps" WHERE "userPlanId" = $1\<close>\<close>

definition deleteStepsSql :: "db \<Rightarrow> int \<Rightarrow> db" where
  "deleteStepsSql d planId =
     d\<lparr>PlanSteps := filter (\<lambda>ps. ps_userPlanId ps \<noteq> planId) (PlanSteps d)\<rparr>"

text \<open>
  \<^verbatim>\<open>DELETE FROM "UserPlans" WHERE "userPlanId" = $1 AND "userId" = $2 RETURNING *\<close>
\<close>

definition deletePlanSql :: "db \<Rightarrow> int \<Rightarrow> int \<Rightarrow> UserPlanRow list \<times> db" where
  "deletePlanSql d planId userId =
     (let hit = (\<lambda>up. up_userPlanId up = planId \<and> up_userId up = userId)
      in (filter hit (UserPlans d),
          d\<lparr>UserPlans := filter (\<lambda>up. \<not> hit up) (UserPlans d)\<rparr>))"

definition delete_txn :: "db \<Rightarrow> int \<Rightarrow> int \<Rightarrow> (error + string) \<times> db" where
  "delete_txn d planId userId =
     (let d1 = deleteStepsSql d planId;
          (rows, d2) = deletePlanSql d1 planId userId
      in if rows = [] then (Inl (ClientError 404 ''Plan not found''), d2)
         else (Inr ''Plan deleted successfully'', d2))"

definition delete :: "db \<Rightarrow> int \<Rightarrow> int \<Rightarrow> (error + string) \<times> db" where
  "delete d planId userId =
     (case delete_txn d planId userId of
        (Inl err, d1) \<Rightarrow> (Inl err, ROLLBACK d d1)
      | (Inr msg, d1) \<Rightarrow> (Inr msg, COMMIT d1))"

section \<open>POST /api/plans/:planId/steps\<close>

record NewStep =
  ns_stepDescription :: "string option"
  ns_dueDate :: "int option"
  ns_completed :: "bool option"

text \<open>
  \<^verbatim>\<open>SELECT MAX("stepOrder") as "maxOrder" FROM "PlanSteps" WHERE "userPlanId" = $1\<close>: the
  maximum of the values that are not null, null when there is none.
\<close>

definition maxOrderSql :: "db \<Rightarrow> int \<Rightarrow> int option" where
  "maxOrderSql d planId =
     (case List.map_filter ps_stepOrder
             (filter (\<lambda>ps. ps_userPlanId ps = planId) (PlanSteps d)) of
        [] \<Rightarrow> None
      | v # vs \<Rightarrow> Some (fold max vs v))"

text \<open>\<^verbatim>\<open>maxOrder || 0\<close>\<close>

definition or_zero :: "int option \<Rightarrow> int" where
  "or_zero v = (if truthy v then the v else 0)"

text \<open>
  \<^verbatim>\<open>INSERT INTO "PlanSteps" ("userPlanId", "templateId", "stepDescription", "dueDate",
  "completed", "stepOrder") VALUES ($1, null, $3, $4, $5, $6) RETURNING *\<close>, with
  \<^verbatim>\<open>completed || false\<close>.
\<close>

definition addStep_insertStepSql ::
  "db \<Rightarrow> int \<Rightarrow> NewStep \<Rightarrow> int \<Rightarrow> (error + PlanStepRow list) \<times> db" where
  "addStep_insertStepSql d planId newStep newStepOrder =
     (let newId = PlanSteps_seq d + 1;
          d1 = d\<lparr>PlanSteps_seq := newId\<rparr>
      in case (ns_stepDescription newStep, ns_dueDate newStep) of
           (Some descr, Some due) \<Rightarrow>
             (let row = \<lparr>ps_planStepId = newId, ps_userPlanId = planId, ps_templateId = None,
                         ps_stepDescription = descr, ps_dueDate = due,
                         ps_completed = or_false (ns_completed newStep),
                         ps_completedAt = None, ps_stepOrder = Some newStepOrder\<rparr>
              in (Inr [row], d1\<lparr>PlanSteps := PlanSteps d1 @ [row]\<rparr>))
         | _ \<Rightarrow> (Inl StoreError, d1))"

text \<open>The response is the status with \<^verbatim>\<open>result.rows[0]\<close>.\<close>

definition addStep ::
  "db \<Rightarrow> int \<Rightarrow> int \<Rightarrow> NewStep \<Rightarrow> (error + int \<times> PlanStepRow option) \<times> db" where
  "addStep d planId userId newStep =
     (if checkPlanSql d planId userId = [] then (Inl (ClientError 404 ''Plan not found''), d)
      else (let newStepOrder = or_zero (maxOrderSql d planId) + 1
            in case addStep_insertStepSql d planId newStep newStepOrder of
                 (Inl err, d') \<Rightarrow> (Inl err, d')
               | (Inr rows, d') \<Rightarrow>
                   (Inr (201, case rows of [] \<Rightarrow> None | row # _ \<Rightarrow> Some row), d')))"

section \<open>DELETE /api/plans/:planId/steps/:stepId\<close>

text \<open>
  \<^verbatim>\<open>DELETE FROM "PlanSteps" WHERE "planStepId" = $1 AND "userPlanId" = $2 RETURNING *\<close>
\<close>

definition deleteStepSql :: "db \<Rightarrow> int \<Rightarrow> int \<Rightarrow> PlanStepRow list \<times> db" where
  "deleteStepSql d stepId planId =
     (let hit = (\<lambda>ps. ps_planStepId ps = stepId \<and> ps_userPlanId ps = planId)
      in (filter hit (PlanSteps d),
          d\<lparr>PlanSteps := filter (\<lambda>ps. \<not> hit ps) (PlanSteps d)\<rparr>))"

definition deleteStep :: "db \<Rightarrow> int \<Rightarrow> int \<Rightarrow> int \<Rightarrow> (error + string) \<times> db" where
  "deleteStep d planId stepId userId =
     (if checkPlanSql d planId userId = [] then (Inl (ClientError 404 ''Plan not found''), d)
      else (let (rows, d') = deleteStepSql d stepId planId
            in if rows = [] then (Inl (ClientError 404 ''Step not found''), d')
               else (Inr ''Step deleted successfully'', d')))"

section \<open>POST /api/users/:userId/plans\<close>

definition saveExisting :: "db \<Rightarrow> int \<Rightarrow> int \<Rightarrow> int \<Rightarrow> (error + string) \<times> db" where
  "saveExisting d userId planId authenticatedUserId =
     (if userId \<noteq> authenticatedUserId
      then (Inl (ClientError 403 ''Unauthorized to save plan for this user''), d)
      else if checkPlanSql d planId userId = []
      then (Inl (ClientError 404 ''Plan not found or does not belong to the user''), d)
      else (Inr ''Plan saved to profile successfully'', d))"

section \<open>Notions the properties are stated with\<close>


text \<open>
  From \<open>d\<close> to \<open>d'\<close> the plan rows are the same plans of the same owners, and none that
  was completed has become active again.
\<close>

definition keepsCompleted :: "db \<Rightarrow> db \<Rightarrow> bool" where
  "keepsCompleted d d' =
     list_all2 (\<lambda>up up'. up_userPlanId up' = up_userPlanId up \<and> up_userId up' = up_userId up \<and>
                          (up_isCompleted up \<longrightarrow> up_isCompleted up'))
       (UserPlans d) (UserPlans d')"


text \<open>The steps of a plan, in table order.\<close>

definition stepsOf :: "db \<Rightarrow> int \<Rightarrow> PlanStepRow list" where
  "stepsOf d planId = filter (\<lambda>ps. ps_userPlanId ps = planId) (PlanSteps d)"

text \<open>The order values, those that are not null, of the steps of a plan.\<close>

definition stepOrders :: "db \<Rightarrow> int \<Rightarrow> int list" where
  "stepOrders d planId =
     List.map_filter ps_stepOrder (filter (\<lambda>ps. ps_userPlanId ps = planId) (PlanSteps d))"

text \<open>One more than the greatest order value of the plan, 1 when it has none.\<close>

definition nextOrder :: "db \<Rightarrow> int \<Rightarrow> int" where
  "nextOrder d planId =
     (if stepOrders d planId = [] then 1 else Max (set (stepOrders d planId)) + 1)"

text \<open>The plan row after the \<^verbatim>\<open>SET\<close> clause of the plan update.\<close>

definition payloadRow :: "PlanPayload \<Rightarrow> int \<Rightarrow> string \<Rightarrow> UserPlanRow \<Rightarrow> UserPlanRow" where
  "payloadRow p g t up =
     up\<lparr>up_grassSpeciesId := g, up_planType := t,
        up_isCompleted := or_false (pp_isCompleted p),
        up_isArchived := or_false (pp_isArchived p),
        up_establishmentType := pp_establishmentType p\<rparr>"



section \<open>Example stores and requests\<close>

text \<open>
  A small store: user 1 owns plan 1, with three open steps, and plan 3, with no step;
  user 2 owns the completed plan 2.
\<close>

definition ex_plan :: "int \<Rightarrow> int \<Rightarrow> bool \<Rightarrow> int \<Rightarrow> UserPlanRow" where
  "ex_plan planId userId done created =
     \<lparr>up_userPlanId = planId, up_userId = userId, up_grassSpeciesId = 1,
      up_planType = ''new_lawn'', up_establishmentType = Some ''sod_plugs'',
      up_isCompleted = done, up_isArchived = False, up_createdAt = created,
      up_completedAt = None\<rparr>"

definition ex_step :: "int \<Rightarrow> int \<Rightarrow> int \<Rightarrow> bool \<Rightarrow> int option \<Rightarrow> PlanStepRow" where
  "ex_step stepId planId due done doneAt =
     \<lparr>ps_planStepId = stepId, ps_userPlanId = planId, ps_templateId = None,
      ps_stepDescription = ''Mow'', ps_dueDate = due, ps_completed = done,
      ps_completedAt = doneAt, ps_stepOrder = None\<rparr>"

definition ex_db :: db where
  "ex_db =
     \<lparr>UserPlans = [ex_plan 1 1 False 100, ex_plan 2 2 True 200, ex_plan 3 1 False 300],
      PlanSteps = [ex_step 1 1 30 False None, ex_step 2 1 10 False None,
                   ex_step 3 1 20 False None, ex_step 4 2 5 True (Some 6)],
      GrassSpecies = [\<lparr>gs_grassSpeciesId = 1, gs_name = ''Bermuda''\<rparr>],
      PlanSteps_seq = 4\<rparr>"

text \<open>The same store without plan 2 and its step.\<close>

definition ex_db_absent :: db where
  "ex_db_absent =
     \<lparr>UserPlans = [ex_plan 1 1 False 100, ex_plan 3 1 False 300],
      PlanSteps = [ex_step 1 1 30 False None, ex_step 2 1 10 False None,
                   ex_step 3 1 20 False None],
      GrassSpecies = [\<lparr>gs_grassSpeciesId = 1, gs_name = ''Bermuda''\<rparr>],
      PlanSteps_seq = 4\<rparr>"

text \<open>A store in which user 1 owns two plans, 3 and 4, and neither has a step.\<close>

definition ex_db_stepless :: db where
  "ex_db_stepless =
     \<lparr>UserPlans = [ex_plan 3 1 False 300, ex_plan 4 1 False 400],
      PlanSteps = [],
      GrassSpecies = [\<lparr>gs_grassSpeciesId = 1, gs_name = ''Bermuda''\<rparr>],
      PlanSteps_seq = 0\<rparr>"

text \<open>
  A request body for a plan update that repeats the scalar fields of the example plans,
  names no \<^verbatim>\<open>isCompleted\<close> and has an empty \<^verbatim>\<open>steps\<close> array.
\<close>

definition ex_payload :: PlanPayload where
  "ex_payload =
     \<lparr>pp_grassSpeciesId = Some 1, pp_planType = Some ''new_lawn'', pp_isCompleted = None,
      pp_isArchived = None, pp_establishmentType = Some ''sod_plugs'', pp_steps = Some []\<rparr>"

text \<open>
  A request body for plan 1 that changes the plan type and adds two steps, the second
  without a description, which the store refuses.
\<close>

definition ex_payload_fail :: PlanPayload where
  "ex_payload_fail =
     \<lparr>pp_grassSpeciesId = Some 1, pp_planType = Some ''lawn_improvement'',
      pp_isCompleted = None, pp_isArchived = Some True, pp_establishmentType = None,
      pp_steps = Some
        [\<lparr>sp_planStepId = None, sp_stepDescription = Some ''Water'', sp_dueDate = Some 15,
          sp_completed = Some False\<rparr>,
         \<lparr>sp_planStepId = None, sp_stepDescription = None, sp_dueDate = Some 25,
          sp_completed = Some False\<rparr>]\<rparr>"

text \<open>The step of the spec's scenario: to mow, due on 2024-05-01.\<close>

definition ex_newStep :: NewStep where
  "ex_newStep = \<lparr>ns_stepDescription = Some ''Mow'', ns_dueDate = Some 20240501,
                 ns_completed = None\<rparr>"

section \<open>Transactions\<close>

lemma ROLLBACK_tables [simp]:
  "UserPlans (ROLLBACK d d1) = UserPlans d"
  "PlanSteps (ROLLBACK d d1) = PlanSteps d"
  "GrassSpecies (ROLLBACK d d1) = GrassSpecies d"
  "PlanSteps_seq (ROLLBACK d d1) = PlanSteps_seq d1"
  by (simp_all add: ROLLBACK_def)

lemma ROLLBACK_same_seq: "PlanSteps_seq d1 = PlanSteps_seq d \<Longrightarrow> ROLLBACK d d1 = d"
  by (simp add: ROLLBACK_def)

section \<open>Deleting a plan\<close>

lemma delete_txn_seq: "PlanSteps_seq (snd (delete_txn d planId userId)) = PlanSteps_seq d"
  by (simp add: delete_txn_def deleteStepsSql_def deletePlanSql_def Let_def)

lemma delete_txn_rows:
  "fst (delete_txn d planId userId) =
     (if checkPlanSql d planId userId = [] then Inl (ClientError 404 ''Plan not found'')
      else Inr ''Plan deleted successfully'')"
  "UserPlans (snd (delete_txn d planId userId)) =
     filter (\<lambda>up. \<not> (up_userPlanId up = planId \<and> up_userId up = userId)) (UserPlans d)"
  "PlanSteps (snd (delete_txn d planId userId)) =
     filter (\<lambda>ps. ps_userPlanId ps \<noteq> planId) (PlanSteps d)"
  by (simp_all add: delete_txn_def deleteStepsSql_def deletePlanSql_def Let_def checkPlanSql_def)

lemma delete_not_found:
  assumes "checkPlanSql d planId userId = []"
  shows "delete d planId userId = (Inl (ClientError 404 ''Plan not found''), d)"
proof -
  obtain r d1 where t: "delete_txn d planId userId = (r, d1)" by force
  from t delete_txn_rows(1)[of d planId userId] assms
  have r: "r = Inl (ClientError 404 ''Plan not found'')" by simp
  from t delete_txn_seq[of d planId userId] have "PlanSteps_seq d1 = PlanSteps_seq d" by simp
  then have "ROLLBACK d d1 = d" by (rule ROLLBACK_same_seq)
  with t r show ?thesis by (simp add: delete_def)
qed

text \<open>
  C4. \<open>delete\<close> either removes the plan row and every step of the plan, or, when no
  plan row matches the plan and the owner, fails with NotFound and leaves plans and steps
  as they were: the steps were deleted inside the transaction and the rollback restored
  them.
\<close>

theorem delete_all_or_nothing:
  "(checkPlanSql d planId userId \<noteq> [] \<longrightarrow>
      fst (delete d planId userId) = Inr ''Plan deleted successfully'' \<and>
      UserPlans (snd (delete d planId userId)) =
        filter (\<lambda>up. \<not> (up_userPlanId up = planId \<and> up_userId up = userId)) (UserPlans d) \<and>
      PlanSteps (snd (delete d planId userId)) =
        filter (\<lambda>ps. ps_userPlanId ps \<noteq> planId) (PlanSteps d) \<and>
      checkPlanSql (snd (delete d planId userId)) planId userId = [] \<and>
      (\<forall>ps \<in> set (PlanSteps (snd (delete d planId userId))). ps_userPlanId ps \<noteq> planId)) \<and>
   (checkPlanSql d planId userId = [] \<longrightarrow>
      delete d planId userId = (Inl (ClientError 404 ''Plan not found''), d) \<and>
      PlanSteps (snd (delete_txn d planId userId)) =
        filter (\<lambda>ps. ps_userPlanId ps \<noteq> planId) (PlanSteps d))"
proof (intro conjI impI)
  assume ne: "checkPlanSql d planId userId \<noteq> []"
  obtain r d1 where t: "delete_txn d planId userId = (r, d1)" by force
  from t delete_txn_rows(1)[of d planId userId] ne
  have r: "r = Inr ''Plan deleted successfully''" by simp
  from t r have del: "delete d planId userId = (Inr ''Plan deleted successfully'', d1)"
    by (simp add: delete_def COMMIT_def)
  from del show "fst (delete d planId userId) = Inr ''Plan deleted successfully''" by simp
  from del t delete_txn_rows(2)[of d planId userId]
  show up: "UserPlans (snd (delete d planId userId)) =
        filter (\<lambda>up. \<not> (up_userPlanId up = planId \<and> up_userId up = userId)) (UserPlans d)"
    by simp
  from del t delete_txn_rows(3)[of d planId userId]
  show ps: "PlanSteps (snd (delete d planId userId)) =
        filter (\<lambda>ps. ps_userPlanId ps \<noteq> planId) (PlanSteps d)"
    by simp
  from up show "checkPlanSql (snd (delete d planId userId)) planId userId = []"
    by (simp add: checkPlanSql_def filter_empty_conv)
  from ps show "\<forall>ps \<in> set (PlanSteps (snd (delete d planId userId))). ps_userPlanId ps \<noteq> planId"
    by simp
next
  assume "checkPlanSql d planId userId = []"
  then show "delete d planId userId = (Inl (ClientError 404 ''Plan not found''), d)"
    by (rule delete_not_found)
next
  show "PlanSteps (snd (delete_txn d planId userId)) =
        filter (\<lambda>ps. ps_userPlanId ps \<noteq> planId) (PlanSteps d)"
    by (rule delete_txn_rows(3))
qed

theorem delete_all_or_nothing_witness:
  "checkPlanSql ex_db 1 1 \<noteq> [] \<and>
   fst (delete ex_db 1 1) = Inr ''Plan deleted successfully'' \<and>
   map up_userPlanId (UserPlans (snd (delete ex_db 1 1))) = [2, 3] \<and>
   map ps_planStepId (PlanSteps (snd (delete ex_db 1 1))) = [4] \<and>
   checkPlanSql ex_db 2 1 = [] \<and>
   delete ex_db 2 1 = (Inl (ClientError 404 ''Plan not found''), ex_db) \<and>
   map ps_planStepId (PlanSteps (snd (delete_txn ex_db 2 1))) = [1, 2, 3]"
  using delete_all_or_nothing [of ex_db 1 1] delete_all_or_nothing [of ex_db 2 1]
  by (simp add: checkPlanSql_def ex_db_def ex_plan_def ex_step_def)

section \<open>Completing a plan\<close>

lemma complete_not_found:
  assumes "checkPlanSql d planId userId = []"
  shows "complete d now planId userId = (Inl (ClientError 404 ''Plan not found''), d)"
  using assms by (simp add: complete_def complete_txn_def ROLLBACK_same_seq)

lemma complete_found:
  assumes "checkPlanSql d planId userId \<noteq> []"
  shows "complete d now planId userId =
     (Inr (case map (\<lambda>up. up\<lparr>up_isCompleted := True\<rparr>)
                  (filter (\<lambda>up. up_userPlanId up = planId) (UserPlans d)) of
             [] \<Rightarrow> None | row # _ \<Rightarrow> Some row),
      d\<lparr>UserPlans := map (\<lambda>up. if up_userPlanId up = planId then up\<lparr>up_isCompleted := True\<rparr>
                                else up) (UserPlans d),
        PlanSteps := map (\<lambda>ps. if ps_userPlanId ps = planId \<and> ps_completed ps = False
                                then ps\<lparr>ps_completed := True, ps_completedAt := Some now\<rparr>
                                else ps) (PlanSteps d)\<rparr>)"
  using assms
  by (simp add: complete_def complete_txn_def complete_updatePlanSql_def updateStepsSql_def
      COMMIT_def Let_def)

lemma first_row_find:
  "(case map f (filter P xs) of [] \<Rightarrow> None | row # _ \<Rightarrow> Some row) = map_option f (find P xs)"
  by (induction xs) auto

lemma checkPlanSql_find:
  assumes "checkPlanSql d planId userId \<noteq> []"
  shows "find (\<lambda>up. up_userPlanId up = planId) (UserPlans d) \<noteq> None"
  using assms by (auto simp: checkPlanSql_def filter_empty_conv find_None_iff)

text \<open>
  C7. \<open>complete\<close> fails with NotFound when no plan row matches the plan and the owner;
  otherwise it answers with the plan row, now completed, sets \<open>isCompleted\<close> on the plan
  and turns every step of the plan that was not completed into a completed step stamped
  with the current time, so that afterwards every step of the plan is completed.
\<close>

theorem complete_marks_plan_and_steps:
  "(checkPlanSql d planId userId = [] \<longrightarrow>
      complete d now planId userId = (Inl (ClientError 404 ''Plan not found''), d)) \<and>
   (checkPlanSql d planId userId \<noteq> [] \<longrightarrow>
      find (\<lambda>up. up_userPlanId up = planId) (UserPlans d) \<noteq> None \<and>
      fst (complete d now planId userId) =
        Inr (map_option (\<lambda>up. up\<lparr>up_isCompleted := True\<rparr>)
               (find (\<lambda>up. up_userPlanId up = planId) (UserPlans d))) \<and>
      UserPlans (snd (complete d now planId userId)) =
        map (\<lambda>up. if up_userPlanId up = planId then up\<lparr>up_isCompleted := True\<rparr> else up)
          (UserPlans d) \<and>
      PlanSteps (snd (complete d now planId userId)) =
        map (\<lambda>ps. if ps_userPlanId ps = planId \<and> \<not> ps_completed ps
                   then ps\<lparr>ps_completed := True, ps_completedAt := Some now\<rparr> else ps)
          (PlanSteps d) \<and>
      (\<forall>up \<in> set (UserPlans (snd (complete d now planId userId))).
         up_userPlanId up = planId \<longrightarrow> up_isCompleted up) \<and>
      (\<forall>ps \<in> set (PlanSteps (snd (complete d now planId userId))).
         ps_userPlanId ps = planId \<longrightarrow> ps_completed ps))"
proof (intro conjI impI)
  assume "checkPlanSql d planId userId = []"
  then show "complete d now planId userId = (Inl (ClientError 404 ''Plan not found''), d)"
    by (rule complete_not_found)
next
  assume ne: "checkPlanSql d planId userId \<noteq> []"
  note c = complete_found [OF ne, of now]
  from ne show "find (\<lambda>up. up_userPlanId up = planId) (UserPlans d) \<noteq> None"
    by (rule checkPlanSql_find)
  from c show
    "fst (complete d now planId userId) =
       Inr (map_option (\<lambda>up. up\<lparr>up_isCompleted := True\<rparr>)
              (find (\<lambda>up. up_userPlanId up = planId) (UserPlans d)))"
    by (simp add: first_row_find)
  from c show U:
    "UserPlans (snd (complete d now planId userId)) =
       map (\<lambda>up. if up_userPlanId up = planId then up\<lparr>up_isCompleted := True\<rparr> else up)
         (UserPlans d)"
    by simp
  from c show P:
    "PlanSteps (snd (complete d now planId userId)) =
       map (\<lambda>ps. if ps_userPlanId ps = planId \<and> \<not> ps_completed ps
                  then ps\<lparr>ps_completed := True, ps_completedAt := Some now\<rparr> else ps)
         (PlanSteps d)"
    by simp
  show
    "\<forall>up \<in> set (UserPlans (snd (complete d now planId userId))).
       up_userPlanId up = planId \<longrightarrow> up_isCompleted up"
    unfolding U by (simp add: ball_Un)
  show
    "\<forall>ps \<in> set (PlanSteps (snd (complete d now planId userId))).
       ps_userPlanId ps = planId \<longrightarrow> ps_completed ps"
    unfolding P by (simp add: ball_Un)
qed

text \<open>The scenario of the spec: a plan with three open steps.\<close>

theorem complete_marks_plan_and_steps_witness:
  "checkPlanSql ex_db 1 2 = [] \<and>
   complete ex_db 999 1 2 = (Inl (ClientError 404 ''Plan not found''), ex_db) \<and>
   checkPlanSql ex_db 1 1 \<noteq> [] \<and>
   fst (complete ex_db 999 1 1) = Inr (Some (ex_plan 1 1 True 100)) \<and>
   map up_isCompleted (UserPlans (snd (complete ex_db 999 1 1))) = [True, True, False] \<and>
   PlanSteps (snd (complete ex_db 999 1 1)) =
     [ex_step 1 1 30 True (Some 999), ex_step 2 1 10 True (Some 999),
      ex_step 3 1 20 True (Some 999), ex_step 4 2 5 True (Some 6)]"
  using complete_marks_plan_and_steps [of ex_db 1 2 999]
    complete_marks_plan_and_steps [of ex_db 1 1 999]
  by (simp add: checkPlanSql_def ex_db_def ex_plan_def ex_step_def)

section \<open>Completing a step\<close>

lemma completeStep_not_found:
  assumes "checkPlanSql d planId userId = []"
  shows "completeStep d planId stepId userId completed completedAt =
           (Inl (ClientError 404 ''Plan not found''), d)"
  using assms by (simp add: completeStep_def)

lemma completeStep_plans:
  "UserPlans (snd (completeStep d planId stepId userId completed completedAt)) = UserPlans d"
  by (simp add: completeStep_def completeStep_updateStepSql_def Let_def
      split: option.splits list.splits)








section \<open>Updating a plan\<close>

lemma update_updateStepSql_plans:
  "UserPlans (snd (update_updateStepSql d step planId)) = UserPlans d"
  "GrassSpecies (snd (update_updateStepSql d step planId)) = GrassSpecies d"
  by (simp_all add: update_updateStepSql_def Let_def split: option.splits)

lemma update_insertStepSql_plans:
  "UserPlans (snd (update_insertStepSql d step planId)) = UserPlans d"
  "GrassSpecies (snd (update_insertStepSql d step planId)) = GrassSpecies d"
  by (simp_all add: update_insertStepSql_def Let_def split: option.splits)

lemma update_steps_plans:
  "UserPlans (snd (update_steps planId steps d)) = UserPlans d \<and>
   GrassSpecies (snd (update_steps planId steps d)) = GrassSpecies d"
proof (induction steps arbitrary: d)
  case Nil
  show ?case by simp
next
  case (Cons step rest)
  let ?st = "if truthy (sp_planStepId step) then update_updateStepSql d step planId
             else update_insertStepSql d step planId"
  obtain r d' where st: "?st = (r, d')" by force
  have pl: "UserPlans d' = UserPlans d \<and> GrassSpecies d' = GrassSpecies d"
  proof (cases "truthy (sp_planStepId step)")
    case True
    with st update_updateStepSql_plans [of d step planId] show ?thesis by simp
  next
    case False
    with st update_insertStepSql_plans [of d step planId] show ?thesis by simp
  qed
  show ?case
  proof (cases r)
    case (Inl err)
    with st pl show ?thesis by simp
  next
    case (Inr u)
    with st have "update_steps planId (step # rest) d = update_steps planId rest d'" by simp
    with Cons.IH [of d'] pl show ?thesis by simp
  qed
qed

lemma update_updatePlanSql_cases:
  "update_updatePlanSql d p planId userId =
     (if checkPlanSql d planId userId = [] then (Inr [], d)
      else case (pp_grassSpeciesId p, pp_planType p) of
        (Some g, Some t) \<Rightarrow>
          (Inr (map (payloadRow p g t) (checkPlanSql d planId userId)),
           d\<lparr>UserPlans := map (\<lambda>up. if up_userPlanId up = planId \<and> up_userId up = userId
                                     then payloadRow p g t up else up) (UserPlans d)\<rparr>)
      | _ \<Rightarrow> (Inl StoreError, d))"
  by (simp add: update_updatePlanSql_def checkPlanSql_def payloadRow_def Let_def
      split: option.splits)

lemma update_txn_not_found:
  assumes "checkPlanSql d planId userId = []"
  shows "update_txn d planId userId p = (Inl (ClientError 404 ''Plan not found''), d)"
  using assms by (simp add: update_txn_def update_updatePlanSql_cases)

lemma update_not_found:
  assumes "checkPlanSql d planId userId = []"
  shows "update d planId userId p = (Inl (ClientError 404 ''Plan not found''), d)"
  using assms by (simp add: update_def update_txn_not_found ROLLBACK_same_seq)

lemma update_failure:
  assumes "fst (update d planId userId p) = Inl err"
  shows "UserPlans (snd (update d planId userId p)) = UserPlans d \<and>
         PlanSteps (snd (update d planId userId p)) = PlanSteps d \<and>
         GrassSpecies (snd (update d planId userId p)) = GrassSpecies d"
proof -
  obtain r d1 where t: "update_txn d planId userId p = (r, d1)" by force
  show ?thesis
  proof (cases r)
    case (Inl e)
    with t show ?thesis by (simp add: update_def)
  next
    case (Inr u)
    with t assms show ?thesis by (simp add: update_def Let_def)
  qed
qed

lemma update_success:
  assumes "fst (update d planId userId p) = Inr r"
  shows "\<exists>g t steps.
           pp_grassSpeciesId p = Some g \<and> pp_planType p = Some t \<and> pp_steps p = Some steps \<and>
           checkPlanSql d planId userId \<noteq> [] \<and>
           update_steps planId steps
             (d\<lparr>UserPlans := map (\<lambda>up. if up_userPlanId up = planId \<and> up_userId up = userId
                                        then payloadRow p g t up else up) (UserPlans d)\<rparr>) =
             (Inr (), snd (update d planId userId p)) \<and>
           r = finalPlan (updatedPlanSql (snd (update d planId userId p)) planId)"
proof -
  obtain res d1 where t: "update_txn d planId userId p = (res, d1)" by force
  with assms obtain u where res: "res = Inr u"
    by (cases res) (simp_all add: update_def)
  from t res have upd: "update d planId userId p = (Inr (finalPlan (updatedPlanSql d1 planId)), d1)"
    by (simp add: update_def COMMIT_def)
  have ne: "checkPlanSql d planId userId \<noteq> []"
  proof
    assume "checkPlanSql d planId userId = []"
    from update_txn_not_found [OF this] t res show False by simp
  qed
  from t res ne obtain g t' where g: "pp_grassSpeciesId p = Some g" and t': "pp_planType p = Some t'"
    by (cases "pp_grassSpeciesId p"; cases "pp_planType p")
      (simp_all add: update_txn_def update_updatePlanSql_cases)
  let ?d = "d\<lparr>UserPlans := map (\<lambda>up. if up_userPlanId up = planId \<and> up_userId up = userId
                                     then payloadRow p g t' up else up) (UserPlans d)\<rparr>"
  from ne obtain x xs where x: "checkPlanSql d planId userId = x # xs"
    by (cases "checkPlanSql d planId userId") auto
  from t res ne g t' x obtain steps where s: "pp_steps p = Some steps"
    by (cases "pp_steps p") (simp_all add: update_txn_def update_updatePlanSql_cases)
  from t res ne g t' x s have "update_steps planId steps ?d = (Inr u, d1)"
    by (simp add: update_txn_def update_updatePlanSql_cases)
  then have "update_steps planId steps ?d = (Inr (), d1)" by simp
  with g t' s ne upd assms show ?thesis by auto
qed

section \<open>The completed flag of a plan\<close>

lemma keepsCompleted_same:
  assumes "UserPlans d' = UserPlans d"
  shows "keepsCompleted d d'"
  using assms by (simp add: keepsCompleted_def list.rel_refl)

lemma addStep_plans:
  "UserPlans (snd (addStep d planId userId newStep)) = UserPlans d"
  by (simp add: addStep_def addStep_insertStepSql_def Let_def split: option.splits)

lemma deleteStep_plans:
  "UserPlans (snd (deleteStep d planId stepId userId)) = UserPlans d"
  by (simp add: deleteStep_def deleteStepSql_def Let_def)

lemma saveExisting_same:
  "snd (saveExisting d userId planId authenticatedUserId) = d"
  by (simp add: saveExisting_def)

lemma complete_plans:
  "UserPlans (snd (complete d now planId userId)) = UserPlans d \<or>
   UserPlans (snd (complete d now planId userId)) =
     map (\<lambda>up. if up_userPlanId up = planId then up\<lparr>up_isCompleted := True\<rparr> else up)
       (UserPlans d)"
proof (cases "checkPlanSql d planId userId = []")
  case True
  then show ?thesis by (simp add: complete_not_found)
next
  case False
  then show ?thesis by (simp add: complete_found)
qed

lemma complete_keepsCompleted: "keepsCompleted d (snd (complete d now planId userId))"
  using complete_plans [of d now planId userId]
proof
  assume "UserPlans (snd (complete d now planId userId)) = UserPlans d"
  then show ?thesis by (rule keepsCompleted_same)
next
  assume "UserPlans (snd (complete d now planId userId)) =
     map (\<lambda>up. if up_userPlanId up = planId then up\<lparr>up_isCompleted := True\<rparr> else up)
       (UserPlans d)"
  then show ?thesis
    by (simp add: keepsCompleted_def list.rel_map list.rel_refl)
qed

lemma update_success_plans:
  assumes "fst (update d planId userId p) = Inr r"
  shows "\<exists>g t. pp_grassSpeciesId p = Some g \<and> pp_planType p = Some t \<and>
           UserPlans (snd (update d planId userId p)) =
             map (\<lambda>up. if up_userPlanId up = planId \<and> up_userId up = userId
                        then payloadRow p g t up else up) (UserPlans d)"
proof -
  from update_success [OF assms] obtain g t steps where
    g: "pp_grassSpeciesId p = Some g" and t: "pp_planType p = Some t" and
    u: "update_steps planId steps
          (d\<lparr>UserPlans := map (\<lambda>up. if up_userPlanId up = planId \<and> up_userId up = userId
                                     then payloadRow p g t up else up) (UserPlans d)\<rparr>) =
        (Inr (), snd (update d planId userId p))"
    by blast
  from update_steps_plans [of planId steps
      "d\<lparr>UserPlans := map (\<lambda>up. if up_userPlanId up = planId \<and> up_userId up = userId
                                 then payloadRow p g t up else up) (UserPlans d)\<rparr>"] u
  have "UserPlans (snd (update d planId userId p)) =
          map (\<lambda>up. if up_userPlanId up = planId \<and> up_userId up = userId
                     then payloadRow p g t up else up) (UserPlans d)"
    by simp
  with g t show ?thesis by blast
qed

text \<open>
  C2, as the code has it. \<open>complete\<close>, \<open>completeStep\<close>, \<open>addStep\<close>, \<open>deleteStep\<close> and
  \<open>saveExisting\<close> never turn a completed plan back into an active one. \<open>update\<close> writes
  the \<open>isCompleted\<close> of its payload, \<open>false\<close> when the payload has none, into the plan
  it updates and leaves every other plan row as it was.
\<close>

theorem completed_reverts_only_by_update:
  "keepsCompleted d (snd (complete d now planId userId)) \<and>
   keepsCompleted d (snd (completeStep d planId stepId userId completed completedAt)) \<and>
   keepsCompleted d (snd (addStep d planId userId newStep)) \<and>
   keepsCompleted d (snd (deleteStep d planId stepId userId)) \<and>
   keepsCompleted d (snd (saveExisting d pathUserId planId userId)) \<and>
   (\<forall>r. fst (update d planId userId p) = Inr r \<longrightarrow>
      list_all2 (\<lambda>up up'. if up_userPlanId up = planId \<and> up_userId up = userId
                           then up_isCompleted up' = or_false (pp_isCompleted p)
                           else up' = up)
        (UserPlans d) (UserPlans (snd (update d planId userId p))))"
proof (intro conjI allI impI)
  show "keepsCompleted d (snd (complete d now planId userId))"
    by (rule complete_keepsCompleted)
  show "keepsCompleted d (snd (completeStep d planId stepId userId completed completedAt))"
    by (rule keepsCompleted_same) (rule completeStep_plans)
  show "keepsCompleted d (snd (addStep d planId userId newStep))"
    by (rule keepsCompleted_same) (rule addStep_plans)
  show "keepsCompleted d (snd (deleteStep d planId stepId userId))"
    by (rule keepsCompleted_same) (rule deleteStep_plans)
  show "keepsCompleted d (snd (saveExisting d pathUserId planId userId))"
    by (rule keepsCompleted_same) (simp add: saveExisting_same)
next
  fix r
  assume "fst (update d planId userId p) = Inr r"
  from update_success_plans [OF this] obtain g t where
    "UserPlans (snd (update d planId userId p)) =
       map (\<lambda>up. if up_userPlanId up = planId \<and> up_userId up = userId
                  then payloadRow p g t up else up) (UserPlans d)"
    by blast
  then show "list_all2 (\<lambda>up up'. if up_userPlanId up = planId \<and> up_userId up = userId
                           then up_isCompleted up' = or_false (pp_isCompleted p)
                           else up' = up)
        (UserPlans d) (UserPlans (snd (update d planId userId p)))"
    by (simp add: list.rel_map list.rel_refl payloadRow_def)
qed

lemma ex_update_plan2:
  "snd (update ex_db 2 2 ex_payload) =
     ex_db\<lparr>UserPlans := [ex_plan 1 1 False 100, ex_plan 2 2 False 200, ex_plan 3 1 False 300]\<rparr> \<and>
   \<not> isl (fst (update ex_db 2 2 ex_payload))"
  by (simp add: update_def update_txn_def update_updatePlanSql_cases checkPlanSql_def
      payloadRow_def COMMIT_def ex_db_def ex_plan_def ex_step_def ex_payload_def)

theorem completed_reverts_only_by_update_witness:
  "\<not> isl (fst (update ex_db 2 2 ex_payload)) \<and>
   list_all2 (\<lambda>up up'. if up_userPlanId up = 2 \<and> up_userId up = 2
                        then up_isCompleted up' = or_false (pp_isCompleted ex_payload)
                        else up' = up)
     (UserPlans ex_db) (UserPlans (snd (update ex_db 2 2 ex_payload))) \<and>
   keepsCompleted ex_db (snd (complete ex_db 999 2 2)) \<and>
   keepsCompleted ex_db (snd (completeStep ex_db 2 4 2 (Some False) None)) \<and>
   keepsCompleted ex_db (snd (addStep ex_db 2 2 \<lparr>ns_stepDescription = Some ''Mow'',
      ns_dueDate = Some 7, ns_completed = None\<rparr>)) \<and>
   keepsCompleted ex_db (snd (deleteStep ex_db 2 4 2)) \<and>
   keepsCompleted ex_db (snd (saveExisting ex_db 2 2 2))"
proof -
  from ex_update_plan2 obtain r where r: "fst (update ex_db 2 2 ex_payload) = Inr r"
    by (cases "fst (update ex_db 2 2 ex_payload)") simp_all
  note t = completed_reverts_only_by_update [where d = ex_db and planId = 2 and userId = 2
      and p = ex_payload and now = 999 and stepId = 4 and completed = "Some False"
      and completedAt = None and pathUserId = 2
      and newStep = "\<lparr>ns_stepDescription = Some ''Mow'', ns_dueDate = Some 7,
        ns_completed = None\<rparr>"]
  from t r ex_update_plan2 show ?thesis by blast
qed

text \<open>
  C2 as stated fails: the owner of the completed plan 2 sends an update whose body names
  no \<open>isCompleted\<close>, and the plan is active again.
\<close>

theorem update_reverts_completed_counterexample:
  "map up_isCompleted (checkPlanSql ex_db 2 2) = [True] \<and>
   \<not> isl (fst (update ex_db 2 2 ex_payload)) \<and>
   map up_isCompleted (checkPlanSql (snd (update ex_db 2 2 ex_payload)) 2 2) = [False]"
  by (simp add: update_def update_txn_def update_updatePlanSql_cases checkPlanSql_def
      payloadRow_def COMMIT_def ex_db_def ex_plan_def ex_step_def ex_payload_def)

section \<open>Plans of other users\<close>

lemma absent_no_match:
  assumes "\<forall>up \<in> set (UserPlans d). up_userPlanId up \<noteq> planId"
  shows "checkPlanSql d planId userId = []"
  using assms by (simp add: checkPlanSql_def filter_empty_conv)

lemma get_not_found:
  assumes "checkPlanSql d planId userId = []"
  shows "get d planId userId = (Inl (ClientError 404 ''Plan not found''), d)"
proof -
  from assms have "planSql d planId userId = []"
    by (simp add: planSql_def checkPlanSql_def)
  then show ?thesis by (simp add: get_def)
qed

lemma addStep_not_found:
  assumes "checkPlanSql d planId userId = []"
  shows "addStep d planId userId newStep = (Inl (ClientError 404 ''Plan not found''), d)"
  using assms by (simp add: addStep_def)

lemma deleteStep_not_found:
  assumes "checkPlanSql d planId userId = []"
  shows "deleteStep d planId stepId userId = (Inl (ClientError 404 ''Plan not found''), d)"
  using assms by (simp add: deleteStep_def)

lemma saveExisting_not_found:
  assumes "checkPlanSql d planId userId = []"
  shows "saveExisting d pathUserId planId userId =
           (Inl (if pathUserId \<noteq> userId
                 then ClientError 403 ''Unauthorized to save plan for this user''
                 else ClientError 404 ''Plan not found or does not belong to the user''), d)"
  using assms by (simp add: saveExisting_def)

text \<open>
  C5. Let the requesting user own no plan \<open>planId\<close> in \<open>d1\<close> (the plan may exist there
  and belong to somebody else), and let no plan \<open>planId\<close> exist in \<open>d2\<close>. Then every plan
  and step operation gives the same answer on both stores, NotFound, and changes neither.
  (\<open>saveExisting\<close> compares the user of the path with the requesting user first, and
  answers Forbidden on both stores when they differ.)
\<close>

theorem not_owned_is_not_found:
  assumes "checkPlanSql d1 planId userId = []"
    and "\<forall>up \<in> set (UserPlans d2). up_userPlanId up \<noteq> planId"
  shows "get d1 planId userId = (Inl (ClientError 404 ''Plan not found''), d1) \<and>
         get d2 planId userId = (Inl (ClientError 404 ''Plan not found''), d2) \<and>
         update d1 planId userId p = (Inl (ClientError 404 ''Plan not found''), d1) \<and>
         update d2 planId userId p = (Inl (ClientError 404 ''Plan not found''), d2) \<and>
         complete d1 now planId userId = (Inl (ClientError 404 ''Plan not found''), d1) \<and>
         complete d2 now planId userId = (Inl (ClientError 404 ''Plan not found''), d2) \<and>
         delete d1 planId userId = (Inl (ClientError 404 ''Plan not found''), d1) \<and>
         delete d2 planId userId = (Inl (ClientError 404 ''Plan not found''), d2) \<and>
         completeStep d1 planId stepId userId completed completedAt =
           (Inl (ClientError 404 ''Plan not found''), d1) \<and>
         completeStep d2 planId stepId userId completed completedAt =
           (Inl (ClientError 404 ''Plan not found''), d2) \<and>
         addStep d1 planId userId newStep = (Inl (ClientError 404 ''Plan not found''), d1) \<and>
         addStep d2 planId userId newStep = (Inl (ClientError 404 ''Plan not found''), d2) \<and>
         deleteStep d1 planId stepId userId = (Inl (ClientError 404 ''Plan not found''), d1) \<and>
         deleteStep d2 planId stepId userId = (Inl (ClientError 404 ''Plan not found''), d2) \<and>
         saveExisting d1 userId planId userId =
           (Inl (ClientError 404 ''Plan not found or does not belong to the user''), d1) \<and>
         saveExisting d2 userId planId userId =
           (Inl (ClientError 404 ''Plan not found or does not belong to the user''), d2) \<and>
         fst (saveExisting d1 pathUserId planId userId) =
           fst (saveExisting d2 pathUserId planId userId) \<and>
         snd (saveExisting d1 pathUserId planId userId) = d1 \<and>
         snd (saveExisting d2 pathUserId planId userId) = d2"
proof -
  note n1 = assms(1)
  from assms(2) have n2: "checkPlanSql d2 planId userId = []" by (rule absent_no_match)
  show ?thesis
    by (simp add: get_not_found [OF n1] get_not_found [OF n2]
        update_not_found [OF n1] update_not_found [OF n2]
        complete_not_found [OF n1] complete_not_found [OF n2]
        delete_not_found [OF n1] delete_not_found [OF n2]
        completeStep_not_found [OF n1] completeStep_not_found [OF n2]
        addStep_not_found [OF n1] addStep_not_found [OF n2]
        deleteStep_not_found [OF n1] deleteStep_not_found [OF n2]
        saveExisting_not_found [OF n1] saveExisting_not_found [OF n2])
qed

text \<open>User 1 asks for plan 2, which user 2 owns in \<open>ex_db\<close> and which \<open>ex_db_absent\<close> lacks.\<close>

theorem not_owned_is_not_found_witness:
  "checkPlanSql ex_db 2 1 = [] \<and>
   map up_userId (filter (\<lambda>up. up_userPlanId up = 2) (UserPlans ex_db)) = [2] \<and>
   map up_userPlanId (UserPlans ex_db_absent) = [1, 3] \<and>
   get ex_db 2 1 = (Inl (ClientError 404 ''Plan not found''), ex_db) \<and>
   get ex_db_absent 2 1 = (Inl (ClientError 404 ''Plan not found''), ex_db_absent) \<and>
   update ex_db 2 1 ex_payload = (Inl (ClientError 404 ''Plan not found''), ex_db) \<and>
   update ex_db_absent 2 1 ex_payload =
     (Inl (ClientError 404 ''Plan not found''), ex_db_absent) \<and>
   delete ex_db 2 1 = (Inl (ClientError 404 ''Plan not found''), ex_db) \<and>
   delete ex_db_absent 2 1 = (Inl (ClientError 404 ''Plan not found''), ex_db_absent) \<and>
   completeStep ex_db 2 4 1 (Some True) (Some 999) =
     (Inl (ClientError 404 ''Plan not found''), ex_db) \<and>
   completeStep ex_db_absent 2 4 1 (Some True) (Some 999) =
     (Inl (ClientError 404 ''Plan not found''), ex_db_absent) \<and>
   deleteStep ex_db 2 4 1 = (Inl (ClientError 404 ''Plan not found''), ex_db) \<and>
   deleteStep ex_db_absent 2 4 1 = (Inl (ClientError 404 ''Plan not found''), ex_db_absent)"
proof -
  have h1: "checkPlanSql ex_db 2 1 = []"
    by (simp add: checkPlanSql_def ex_db_def ex_plan_def)
  have h2: "\<forall>up \<in> set (UserPlans ex_db_absent). up_userPlanId up \<noteq> 2"
    by (simp add: ex_db_absent_def ex_plan_def)
  have o: "map up_userId (filter (\<lambda>up. up_userPlanId up = 2) (UserPlans ex_db)) = [2]"
    by (simp add: ex_db_def ex_plan_def)
  have a: "map up_userPlanId (UserPlans ex_db_absent) = [1, 3]"
    by (simp add: ex_db_absent_def ex_plan_def)
  from not_owned_is_not_found [OF h1 h2, where p = ex_payload and stepId = 4
      and completed = "Some True" and completedAt = "Some 999"] h1 a o
  show ?thesis by simp
qed

section \<open>Reading a plan\<close>

lemma planSql_mem:
  "(up, name) \<in> set (planSql d planId userId) \<longleftrightarrow>
     up \<in> set (checkPlanSql d planId userId) \<and>
     (\<exists>gs \<in> set (GrassSpecies d).
        up_grassSpeciesId up = gs_grassSpeciesId gs \<and> name = gs_name gs)"
  by (auto simp: planSql_def checkPlanSql_def)

lemma get_steps:
  assumes "fst (get d planId userId) = Inr r"
  shows "gr_steps r = sort_key ps_dueDate (filter (\<lambda>ps. ps_userPlanId ps = planId) (PlanSteps d))
         \<and> (gr_plan r, gr_grassSpeciesName r) \<in> set (planSql d planId userId)"
proof (cases "planSql d planId userId")
  case Nil
  with assms show ?thesis by (simp add: get_def)
next
  case (Cons x xs)
  obtain plan name where x: "x = (plan, name)" by (cases x)
  from assms Cons x have r: "r = \<lparr>gr_plan = plan, gr_grassSpeciesName = name,
      gr_steps = filter (\<lambda>step. Some (ps_planStepId step) \<noteq> None) (stepsSql d planId)\<rparr>"
    by (simp add: get_def)
  from Cons x have "(plan, name) \<in> set (planSql d planId userId)" by simp
  with r show ?thesis by (simp add: stepsSql_def)
qed

text \<open>
  C8. \<open>get\<close> changes nothing; it fails with NotFound when no plan row matches the plan
  and the owner; it succeeds when such a row exists with its species; and on success it
  returns that row, the name of its species, and exactly the steps of the plan, in
  ascending order of due date.
\<close>

theorem get_returns_sorted_steps:
  "snd (get d planId userId) = d \<and>
   (checkPlanSql d planId userId = [] \<longrightarrow>
      fst (get d planId userId) = Inl (ClientError 404 ''Plan not found'')) \<and>
   ((\<exists>up \<in> set (checkPlanSql d planId userId). \<exists>gs \<in> set (GrassSpecies d).
       up_grassSpeciesId up = gs_grassSpeciesId gs) \<longrightarrow> \<not> isl (fst (get d planId userId))) \<and>
   (\<forall>r. fst (get d planId userId) = Inr r \<longrightarrow>
      gr_plan r \<in> set (checkPlanSql d planId userId) \<and>
      (\<exists>gs \<in> set (GrassSpecies d).
         up_grassSpeciesId (gr_plan r) = gs_grassSpeciesId gs \<and>
         gr_grassSpeciesName r = gs_name gs) \<and>
      mset (gr_steps r) = mset (filter (\<lambda>ps. ps_userPlanId ps = planId) (PlanSteps d)) \<and>
      sorted (map ps_dueDate (gr_steps r)) \<and>
      (\<forall>i. Suc i < length (gr_steps r) \<longrightarrow>
         ps_dueDate (gr_steps r ! i) \<le> ps_dueDate (gr_steps r ! Suc i)))"
proof (intro conjI allI impI)
  show "snd (get d planId userId) = d"
    by (simp add: get_def split: list.splits prod.splits)
next
  assume "checkPlanSql d planId userId = []"
  from get_not_found [OF this]
  show "fst (get d planId userId) = Inl (ClientError 404 ''Plan not found'')" by simp
next
  assume "\<exists>up \<in> set (checkPlanSql d planId userId). \<exists>gs \<in> set (GrassSpecies d).
            up_grassSpeciesId up = gs_grassSpeciesId gs"
  then obtain up gs where "up \<in> set (checkPlanSql d planId userId)"
    "gs \<in> set (GrassSpecies d)" "up_grassSpeciesId up = gs_grassSpeciesId gs" by blast
  then have "(up, gs_name gs) \<in> set (planSql d planId userId)"
    unfolding planSql_mem by blast
  then have "planSql d planId userId \<noteq> []" by auto
  then show "\<not> isl (fst (get d planId userId))"
    by (cases "planSql d planId userId") (auto simp: get_def)
next
  fix r
  assume ok: "fst (get d planId userId) = Inr r"
  note g = get_steps [OF ok]
  from g have m: "(gr_plan r, gr_grassSpeciesName r) \<in> set (planSql d planId userId)" by simp
  from m show "gr_plan r \<in> set (checkPlanSql d planId userId)"
    unfolding planSql_mem by simp
  from m show "\<exists>gs \<in> set (GrassSpecies d).
         up_grassSpeciesId (gr_plan r) = gs_grassSpeciesId gs \<and>
         gr_grassSpeciesName r = gs_name gs"
    unfolding planSql_mem by simp
  from g show "mset (gr_steps r) = mset (filter (\<lambda>ps. ps_userPlanId ps = planId) (PlanSteps d))"
    by simp
  from g show s: "sorted (map ps_dueDate (gr_steps r))"
    by simp
  show "\<And>i. Suc i < length (gr_steps r) \<Longrightarrow>
         ps_dueDate (gr_steps r ! i) \<le> ps_dueDate (gr_steps r ! Suc i)"
  proof -
    fix i assume i: "Suc i < length (gr_steps r)"
    with s have "map ps_dueDate (gr_steps r) ! i \<le> map ps_dueDate (gr_steps r) ! Suc i"
      by (simp add: sorted_iff_nth_Suc)
    with i show "ps_dueDate (gr_steps r ! i) \<le> ps_dueDate (gr_steps r ! Suc i)" by simp
  qed
qed

theorem get_returns_sorted_steps_witness:
  "checkPlanSql ex_db 1 2 = [] \<and>
   fst (get ex_db 1 2) = Inl (ClientError 404 ''Plan not found'') \<and>
   fst (get ex_db 1 1) =
     Inr \<lparr>gr_plan = ex_plan 1 1 False 100, gr_grassSpeciesName = ''Bermuda'',
          gr_steps = [ex_step 2 1 10 False None, ex_step 3 1 20 False None,
                      ex_step 1 1 30 False None]\<rparr> \<and>
   snd (get ex_db 1 1) = ex_db \<and>
   sorted (map ps_dueDate
     [ex_step 2 1 10 False None, ex_step 3 1 20 False None, ex_step 1 1 30 False None])"
proof -
  have h: "checkPlanSql ex_db 1 2 = []"
    by (simp add: checkPlanSql_def ex_db_def ex_plan_def)
  have r: "fst (get ex_db 1 1) =
     Inr \<lparr>gr_plan = ex_plan 1 1 False 100, gr_grassSpeciesName = ''Bermuda'',
          gr_steps = [ex_step 2 1 10 False None, ex_step 3 1 20 False None,
                      ex_step 1 1 30 False None]\<rparr>"
    by (simp add: get_def planSql_def stepsSql_def ex_db_def ex_plan_def ex_step_def)
  from get_returns_sorted_steps [of ex_db 1 2] get_returns_sorted_steps [of ex_db 1 1] h r
  show ?thesis by simp
qed

section \<open>Adding a step\<close>

lemma maxOrderSql_Max:
  "maxOrderSql d planId =
     (if stepOrders d planId = [] then None else Some (Max (set (stepOrders d planId))))"
proof (cases "stepOrders d planId")
  case Nil
  then show ?thesis by (simp add: maxOrderSql_def stepOrders_def)
next
  case (Cons v vs)
  then have "maxOrderSql d planId = Some (fold max vs v)"
    by (simp add: maxOrderSql_def stepOrders_def)
  moreover have "Max (set (v # vs)) = fold max vs v" by (rule Max.set_eq_fold)
  ultimately show ?thesis using Cons by simp
qed

lemma or_zero_simps [simp]: "or_zero None = 0" "or_zero (Some n) = n"
  by (simp_all add: or_zero_def)

lemma newStepOrder_eq: "or_zero (maxOrderSql d planId) + 1 = nextOrder d planId"
  by (simp add: maxOrderSql_Max nextOrder_def)

lemma addStep_success:
  assumes "fst (addStep d planId userId newStep) = Inr res"
  shows "\<exists>descr due.
           ns_stepDescription newStep = Some descr \<and> ns_dueDate newStep = Some due \<and>
           checkPlanSql d planId userId \<noteq> [] \<and>
           addStep d planId userId newStep =
             (let row = \<lparr>ps_planStepId = PlanSteps_seq d + 1, ps_userPlanId = planId,
                         ps_templateId = None, ps_stepDescription = descr, ps_dueDate = due,
                         ps_completed = or_false (ns_completed newStep),
                         ps_completedAt = None,
                         ps_stepOrder = Some (nextOrder d planId)\<rparr>
              in (Inr (201, Some row),
                  d\<lparr>PlanSteps_seq := PlanSteps_seq d + 1, PlanSteps := PlanSteps d @ [row]\<rparr>))"
proof -
  from assms have ne: "checkPlanSql d planId userId \<noteq> []"
    by (auto simp: addStep_def)
  from assms ne obtain descr where de: "ns_stepDescription newStep = Some descr"
    by (cases "ns_stepDescription newStep")
      (simp_all add: addStep_def addStep_insertStepSql_def Let_def)
  from assms ne de obtain due where du: "ns_dueDate newStep = Some due"
    by (cases "ns_dueDate newStep")
      (simp_all add: addStep_def addStep_insertStepSql_def Let_def)
  from ne de du show ?thesis
    by (simp add: addStep_def addStep_insertStepSql_def Let_def newStepOrder_eq)
qed

lemma stepOrders_snoc:
  "stepOrders (d\<lparr>PlanSteps_seq := s, PlanSteps := PlanSteps d @ [row]\<rparr>) planId =
     stepOrders d planId @
     (if ps_userPlanId row = planId then (case ps_stepOrder row of None \<Rightarrow> [] | Some v \<Rightarrow> [v])
      else [])"
  by (simp add: stepOrders_def List.map_filter_def split: option.splits)

lemma nextOrder_after:
  assumes "ps_userPlanId row = planId" and "ps_stepOrder row = Some (nextOrder d planId)"
  shows "nextOrder (d\<lparr>PlanSteps_seq := s, PlanSteps := PlanSteps d @ [row]\<rparr>) planId =
           nextOrder d planId + 1"
proof (cases "stepOrders d planId = []")
  case True
  with assms show ?thesis
    by (simp add: nextOrder_def stepOrders_snoc)
next
  case False
  let ?A = "set (stepOrders d planId)"
  from False have fin: "finite ?A" "?A \<noteq> {}" by simp_all
  then have "Max (insert (Max ?A + 1) ?A) = max (Max ?A + 1) (Max ?A)"
    by (rule Max_insert)
  then have "Max (insert (Max ?A + 1) ?A) = Max ?A + 1" by simp
  with False assms show ?thesis
    by (simp add: nextOrder_def stepOrders_snoc)
qed

lemma addStep_next_order:
  assumes "fst (addStep d planId userId newStep) = Inr res"
  shows "\<exists>row. res = (201, Some row) \<and>
           PlanSteps (snd (addStep d planId userId newStep)) = PlanSteps d @ [row] \<and>
           ps_planStepId row = PlanSteps_seq d + 1 \<and>
           ps_userPlanId row = planId \<and>
           ps_templateId row = None \<and>
           ps_stepOrder row =
             Some (if stepOrders d planId = [] then 1
                   else Max (set (stepOrders d planId)) + 1) \<and>
           (filter (\<lambda>ps. ps_userPlanId ps = planId) (PlanSteps d) = [] \<longrightarrow>
              ps_stepOrder row = Some 1) \<and>
           (\<forall>newStep2 res2.
              fst (addStep (snd (addStep d planId userId newStep)) planId userId newStep2) =
                Inr res2 \<longrightarrow>
              (\<exists>row2 n. res2 = (201, Some row2) \<and> ps_stepOrder row = Some n \<and>
                        ps_stepOrder row2 = Some (n + 1)))"
proof -
  from addStep_success [OF assms] obtain descr due where
    a: "addStep d planId userId newStep =
          (let row = \<lparr>ps_planStepId = PlanSteps_seq d + 1, ps_userPlanId = planId,
                      ps_templateId = None, ps_stepDescription = descr, ps_dueDate = due,
                      ps_completed = or_false (ns_completed newStep),
                      ps_completedAt = None,
                      ps_stepOrder = Some (nextOrder d planId)\<rparr>
           in (Inr (201, Some row),
               d\<lparr>PlanSteps_seq := PlanSteps_seq d + 1, PlanSteps := PlanSteps d @ [row]\<rparr>))"
    by blast
  define row where "row = \<lparr>ps_planStepId = PlanSteps_seq d + 1, ps_userPlanId = planId,
                      ps_templateId = None, ps_stepDescription = descr, ps_dueDate = due,
                      ps_completed = or_false (ns_completed newStep),
                      ps_completedAt = None,
                      ps_stepOrder = Some (nextOrder d planId)\<rparr>"
  define d' where "d' = d\<lparr>PlanSteps_seq := PlanSteps_seq d + 1, PlanSteps := PlanSteps d @ [row]\<rparr>"
  from a have a': "addStep d planId userId newStep = (Inr (201, Some row), d')"
    by (simp add: Let_def row_def d'_def)
  have sel: "ps_planStepId row = PlanSteps_seq d + 1" "ps_userPlanId row = planId"
    "ps_templateId row = None" "ps_stepOrder row = Some (nextOrder d planId)"
    by (simp_all add: row_def)
  from a' assms have res: "res = (201, Some row)" by simp
  from a' have st: "PlanSteps (snd (addStep d planId userId newStep)) = PlanSteps d @ [row]"
    by (simp add: d'_def)
  have ord: "ps_stepOrder row =
      Some (if stepOrders d planId = [] then 1 else Max (set (stepOrders d planId)) + 1)"
    using sel(4) by (simp add: nextOrder_def)
  have empty: "filter (\<lambda>ps. ps_userPlanId ps = planId) (PlanSteps d) = [] \<longrightarrow>
      ps_stepOrder row = Some 1"
  proof
    assume "filter (\<lambda>ps. ps_userPlanId ps = planId) (PlanSteps d) = []"
    then have "stepOrders d planId = []"
      by (simp add: stepOrders_def List.map_filter_def)
    with ord show "ps_stepOrder row = Some 1" by simp
  qed
  have nxt: "nextOrder d' planId = nextOrder d planId + 1"
    unfolding d'_def by (rule nextOrder_after) (simp_all add: sel)
  have second: "\<forall>newStep2 res2.
      fst (addStep (snd (addStep d planId userId newStep)) planId userId newStep2) = Inr res2 \<longrightarrow>
      (\<exists>row2 n. res2 = (201, Some row2) \<and> ps_stepOrder row = Some n \<and>
                ps_stepOrder row2 = Some (n + 1))"
  proof (intro allI impI)
    fix newStep2 res2
    assume "fst (addStep (snd (addStep d planId userId newStep)) planId userId newStep2) =
              Inr res2"
    with a' have s2: "fst (addStep d' planId userId newStep2) = Inr res2" by simp
    from addStep_success [OF s2] obtain descr2 due2 where
      "addStep d' planId userId newStep2 =
         (let row = \<lparr>ps_planStepId = PlanSteps_seq d' + 1, ps_userPlanId = planId,
                      ps_templateId = None, ps_stepDescription = descr2, ps_dueDate = due2,
                      ps_completed = or_false (ns_completed newStep2),
                      ps_completedAt = None,
                      ps_stepOrder = Some (nextOrder d' planId)\<rparr>
          in (Inr (201, Some row),
              d'\<lparr>PlanSteps_seq := PlanSteps_seq d' + 1, PlanSteps := PlanSteps d' @ [row]\<rparr>))"
      by blast
    with s2 have "res2 = (201, Some \<lparr>ps_planStepId = PlanSteps_seq d' + 1, ps_userPlanId = planId,
                      ps_templateId = None, ps_stepDescription = descr2, ps_dueDate = due2,
                      ps_completed = or_false (ns_completed newStep2),
                      ps_completedAt = None,
                      ps_stepOrder = Some (nextOrder d' planId)\<rparr>)"
      by (simp add: Let_def)
    with nxt sel(4)
    show "\<exists>row2 n. res2 = (201, Some row2) \<and> ps_stepOrder row = Some n \<and>
                ps_stepOrder row2 = Some (n + 1)"
      by simp
  qed
  from res st sel(1,2,3) ord empty second show ?thesis by blast
qed

lemma addStep_succeeds:
  assumes "checkPlanSql d planId userId \<noteq> []"
    and "ns_stepDescription newStep \<noteq> None" and "ns_dueDate newStep \<noteq> None"
  shows "\<not> isl (fst (addStep d planId userId newStep))"
  using assms
  by (auto simp: addStep_def addStep_insertStepSql_def Let_def)

text \<open>
  C6. \<open>addStep\<close> succeeds for a plan of the user when the request carries a description
  and a due date. When it succeeds it answers 201 with the row it inserted: a step of the
  plan with the next identity of the sequence, a null \<open>templateId\<close>, and as \<open>stepOrder\<close>
  one more than the greatest order value of the plan's steps, 1 when there is none (so 1
  for a plan without steps). A second successful \<open>addStep\<close> on the same plan gets the
  next value after it.
\<close>

theorem addStep_assigns_next_order:
  "(checkPlanSql d planId userId \<noteq> [] \<and> ns_stepDescription newStep \<noteq> None \<and>
    ns_dueDate newStep \<noteq> None \<longrightarrow> \<not> isl (fst (addStep d planId userId newStep))) \<and>
   (\<forall>res. fst (addStep d planId userId newStep) = Inr res \<longrightarrow>
      (\<exists>row. res = (201, Some row) \<and>
                 PlanSteps (snd (addStep d planId userId newStep)) = PlanSteps d @ [row] \<and>
                 ps_planStepId row = PlanSteps_seq d + 1 \<and>
                 ps_userPlanId row = planId \<and>
                 ps_templateId row = None \<and>
                 ps_stepOrder row =
                   Some (if stepOrders d planId = [] then 1
                         else Max (set (stepOrders d planId)) + 1) \<and>
                 (filter (\<lambda>ps. ps_userPlanId ps = planId) (PlanSteps d) = [] \<longrightarrow>
                    ps_stepOrder row = Some 1) \<and>
                 (\<forall>newStep2 res2.
                    fst (addStep (snd (addStep d planId userId newStep)) planId userId newStep2) =
                      Inr res2 \<longrightarrow>
                    (\<exists>row2 n. res2 = (201, Some row2) \<and> ps_stepOrder row = Some n \<and>
                              ps_stepOrder row2 = Some (n + 1)))))"
proof (intro conjI allI impI)
  assume "checkPlanSql d planId userId \<noteq> [] \<and> ns_stepDescription newStep \<noteq> None \<and>
    ns_dueDate newStep \<noteq> None"
  then show "\<not> isl (fst (addStep d planId userId newStep))"
    using addStep_succeeds by blast
next
  fix res
  assume "fst (addStep d planId userId newStep) = Inr res"
  then show "\<exists>row. res = (201, Some row) \<and>
                 PlanSteps (snd (addStep d planId userId newStep)) = PlanSteps d @ [row] \<and>
                 ps_planStepId row = PlanSteps_seq d + 1 \<and>
                 ps_userPlanId row = planId \<and>
                 ps_templateId row = None \<and>
                 ps_stepOrder row =
                   Some (if stepOrders d planId = [] then 1
                         else Max (set (stepOrders d planId)) + 1) \<and>
                 (filter (\<lambda>ps. ps_userPlanId ps = planId) (PlanSteps d) = [] \<longrightarrow>
                    ps_stepOrder row = Some 1) \<and>
                 (\<forall>newStep2 res2.
                    fst (addStep (snd (addStep d planId userId newStep)) planId userId newStep2) =
                      Inr res2 \<longrightarrow>
                    (\<exists>row2 n. res2 = (201, Some row2) \<and> ps_stepOrder row = Some n \<and>
                              ps_stepOrder row2 = Some (n + 1)))"
    by (rule addStep_next_order)
qed

text \<open>The scenario of the spec: a step posted to the plan without steps gets order 1.\<close>

theorem addStep_assigns_next_order_witness:
  "fst (addStep ex_db 3 1 ex_newStep) =
     Inr (201, Some \<lparr>ps_planStepId = 5, ps_userPlanId = 3, ps_templateId = None,
                     ps_stepDescription = ''Mow'', ps_dueDate = 20240501,
                     ps_completed = False, ps_completedAt = None, ps_stepOrder = Some 1\<rparr>) \<and>
   (\<exists>row2. fst (addStep (snd (addStep ex_db 3 1 ex_newStep)) 3 1 ex_newStep) =
             Inr (201, Some row2) \<and> ps_stepOrder row2 = Some 2)"
proof -
  let ?row = "\<lparr>ps_planStepId = 5, ps_userPlanId = 3, ps_templateId = None,
               ps_stepDescription = ''Mow'', ps_dueDate = 20240501,
               ps_completed = False, ps_completedAt = None, ps_stepOrder = Some 1\<rparr>"
  have f: "fst (addStep ex_db 3 1 ex_newStep) = Inr (201, Some ?row)"
    by (simp add: addStep_def addStep_insertStepSql_def checkPlanSql_def maxOrderSql_def
        List.map_filter_def Let_def ex_db_def ex_plan_def ex_step_def ex_newStep_def)
  have "\<not> isl (fst (addStep (snd (addStep ex_db 3 1 ex_newStep)) 3 1 ex_newStep))"
    by (simp add: addStep_def addStep_insertStepSql_def checkPlanSql_def maxOrderSql_def
        List.map_filter_def Let_def ex_db_def ex_plan_def ex_step_def ex_newStep_def)
  then obtain res2 where
    s: "fst (addStep (snd (addStep ex_db 3 1 ex_newStep)) 3 1 ex_newStep) = Inr res2"
    by (cases "fst (addStep (snd (addStep ex_db 3 1 ex_newStep)) 3 1 ex_newStep)") simp_all
  from addStep_assigns_next_order [of ex_db 3 1 ex_newStep] f obtain row where
    e: "(201::int, Some ?row) = (201, Some row)" and
    sec: "\<forall>newStep2 res2.
            fst (addStep (snd (addStep ex_db 3 1 ex_newStep)) 3 1 newStep2) = Inr res2 \<longrightarrow>
            (\<exists>row2 n. res2 = (201, Some row2) \<and> ps_stepOrder row = Some n \<and>
                      ps_stepOrder row2 = Some (n + 1))"
    by blast
  from e have "row = ?row" by simp
  then have row: "ps_stepOrder row = Some 1" by simp
  from sec s obtain row2 n where
    r2: "res2 = (201, Some row2)" and n: "ps_stepOrder row = Some n"
    and o2: "ps_stepOrder row2 = Some (n + 1)"
    by blast
  from row n have "n = 1" by simp
  with o2 have "ps_stepOrder row2 = Some 2" by simp
  with s r2 f show ?thesis by blast
qed

section \<open>The re-read of the plan update\<close>










lemma payloadRow_sel [simp]:
  "up_userPlanId (payloadRow p g t up) = up_userPlanId up"
  "up_userId (payloadRow p g t up) = up_userId up"
  "up_grassSpeciesId (payloadRow p g t up) = g"
  "up_planType (payloadRow p g t up) = t"
  "up_isCompleted (payloadRow p g t up) = or_false (pp_isCompleted p)"
  "up_isArchived (payloadRow p g t up) = or_false (pp_isArchived p)"
  "up_establishmentType (payloadRow p g t up) = pp_establishmentType p"
  "up_createdAt (payloadRow p g t up) = up_createdAt up"
  "up_completedAt (payloadRow p g t up) = up_completedAt up"
  by (simp_all add: payloadRow_def)



lemma ex_update_fail:
  "fst (update_txn ex_db 1 1 ex_payload_fail) = Inl StoreError \<and>
   map up_planType (UserPlans (snd (update_txn ex_db 1 1 ex_payload_fail))) =
     [''lawn_improvement'', ''new_lawn'', ''new_lawn''] \<and>
   map ps_planStepId (PlanSteps (snd (update_txn ex_db 1 1 ex_payload_fail))) = [1, 2, 3, 4, 5]"
  by (simp add: update_txn_def update_updatePlanSql_cases checkPlanSql_def
      update_insertStepSql_def update_updateStepSql_def payloadRow_def Let_def
      ex_db_def ex_plan_def ex_step_def ex_payload_fail_def)


text \<open>
  The transaction of \<open>update\<close> on the example store. User 1 updates plan 2 of user 2 and
  is answered NotFound. User 1 updates plan 1 with a body whose second step the store
  refuses: the plan row and the first step were written in the transaction, and after the
  rollback plans and steps are what they were.
\<close>

lemma update_rolls_back_example:
  "update ex_db 2 1 ex_payload = (Inl (ClientError 404 ''Plan not found''), ex_db) \<and>
   fst (update ex_db 1 1 ex_payload_fail) = Inl StoreError \<and>
   map up_planType (UserPlans (snd (update_txn ex_db 1 1 ex_payload_fail))) =
     [''lawn_improvement'', ''new_lawn'', ''new_lawn''] \<and>
   map ps_planStepId (PlanSteps (snd (update_txn ex_db 1 1 ex_payload_fail))) =
     [1, 2, 3, 4, 5] \<and>
   UserPlans (snd (update ex_db 1 1 ex_payload_fail)) = UserPlans ex_db \<and>
   PlanSteps (snd (update ex_db 1 1 ex_payload_fail)) = PlanSteps ex_db"
proof -
  have n: "checkPlanSql ex_db 2 1 = []"
    by (simp add: checkPlanSql_def ex_db_def ex_plan_def)
  from update_not_found [OF n]
  have a: "update ex_db 2 1 ex_payload = (Inl (ClientError 404 ''Plan not found''), ex_db)" .
  obtain d1 where t1: "update_txn ex_db 1 1 ex_payload_fail = (Inl StoreError, d1)"
    using ex_update_fail by (cases "update_txn ex_db 1 1 ex_payload_fail") simp
  then have f: "fst (update ex_db 1 1 ex_payload_fail) = Inl StoreError"
    by (simp add: update_def)
  from update_failure [OF f]
  have b: "UserPlans (snd (update ex_db 1 1 ex_payload_fail)) = UserPlans ex_db \<and>
           PlanSteps (snd (update ex_db 1 1 ex_payload_fail)) = PlanSteps ex_db"
    by simp
  from a f ex_update_fail b show ?thesis by simp
qed

text \<open>
  C3 on two successful updates of the example store. The 404 and the rollback are as the
  claim has them (\<open>update_not_found\<close>, \<open>update_failure\<close>); the answer on success is not
  the merged plan with its steps. The re-read selects \<^verbatim>\<open>up.*, ..., ps.*\<close>, so the
  \<^verbatim>\<open>userPlanId\<close> and the \<^verbatim>\<open>completedAt\<close> of the answer are those of the joined step.
  User 1 updates plan 3, which has no step: the answer has a null \<^verbatim>\<open>userPlanId\<close> and a
  \<^verbatim>\<open>steps\<close> array of one all-null entry, where the stored plan is plan 3 and has no
  step. User 2 updates plan 2: the answer's \<^verbatim>\<open>completedAt\<close> is 6, the time step 4 was
  completed, where the stored plan's \<^verbatim>\<open>completedAt\<close> is null.
\<close>

theorem update_answer_is_not_the_merged_plan:
  "fst (update ex_db 3 1 ex_payload) =
     Inr \<lparr>fp_row = Some
            \<lparr>jr_userPlanId = None, jr_userId = 1, jr_grassSpeciesId = 1,
             jr_planType = ''new_lawn'', jr_establishmentType = Some ''sod_plugs'',
             jr_isCompleted = False, jr_isArchived = False, jr_createdAt = 300,
             jr_completedAt = None, jr_grassSpeciesName = ''Bermuda'',
             jr_planStepId = None, jr_templateId = None, jr_stepDescription = None,
             jr_dueDate = None, jr_completed = None, jr_stepOrder = None\<rparr>,
          fp_steps =
            [\<lparr>sv_planStepId = None, sv_stepDescription = None, sv_dueDate = None,
              sv_completed = None\<rparr>]\<rparr> \<and>
   map up_userPlanId (checkPlanSql (snd (update ex_db 3 1 ex_payload)) 3 1) = [3] \<and>
   stepsOf (snd (update ex_db 3 1 ex_payload)) 3 = [] \<and>
   \<not> isl (fst (update ex_db 2 2 ex_payload)) \<and>
   map up_completedAt (checkPlanSql (snd (update ex_db 2 2 ex_payload)) 2 2) = [None] \<and>
   map_option jr_completedAt (fp_row (projr (fst (update ex_db 2 2 ex_payload)))) =
     Some (Some 6)"
  by (simp add: update_def update_txn_def update_updatePlanSql_def checkPlanSql_def
      COMMIT_def updatedPlanSql_def joinRows_def leftJoinSteps_def orderByDueDate_def
      stepDue_def pgRow_def finalPlan_def stepView_def stepsOf_def Let_def
      ex_db_def ex_plan_def ex_step_def ex_payload_def)







section \<open>Listing the plans of a user\<close>

text \<open>
  C9 on a store where the user owns two plans without steps. Each plan gives one joined
  row, whose \<^verbatim>\<open>userPlanId\<close> is the null of the step columns; the first row makes a plan
  entry with a null \<^verbatim>\<open>userPlanId\<close>, \<^verbatim>\<open>plans.find\<close> takes the second row for that
  same entry, and the answer lists one plan where the user has two.
\<close>

theorem listForUser_merges_stepless_plans:
  "map up_userPlanId (filter (\<lambda>up. up_userId up = 1) (UserPlans ex_db_stepless)) = [3, 4] \<and>
   map jr_userPlanId (plansSql ex_db_stepless 1) = [None, None] \<and>
   map jr_createdAt (plansSql ex_db_stepless 1) = [400, 300] \<and>
   fst (listForUser ex_db_stepless 1 1) =
     Inr [\<lparr>lp_userPlanId = None, lp_userId = 1, lp_grassSpeciesId = 1,
           lp_grassSpeciesName = ''Bermuda'', lp_establishmentType = Some ''sod_plugs'',
           lp_planType = ''new_lawn'', lp_isCompleted = False, lp_isArchived = False,
           lp_createdAt = 400, lp_completedAt = None, lp_steps = []\<rparr>]"
  by (simp add: listForUser_def plansSql_def joinRows_def leftJoinSteps_def
      orderByDueDate_def stepDue_def pgRow_def addRow_def newListedPlan_def
      ex_db_stepless_def ex_plan_def)

end
